theory Spec2Isabelle
  imports Complex_Main
begin

section \<open>PyHIS core: entities, lazy accessors and their collaborators\<close>

text \<open>
  A shallow embedding of \<^verbatim>\<open>pyhis/core.py\<close>. Python objects live in an explicit store
  (one heap per class, addressed by references), because \<^verbatim>\<open>Source\<close>, \<^verbatim>\<open>Site\<close> and
  \<^verbatim>\<open>TimeSeries\<close> objects are shared and mutated through back-references. Every method
  is a function from the store to a result and the store it leaves; an exception is the
  result \<open>Inl e\<close>, together with the store as mutated up to the raise.
\<close>

subsection \<open>Values\<close>

type_synonym ref = nat

datatype error =
    NotImplementedError
  | IndexError
  | AttributeError
  | TypeError
  | ValueError
  | TransportError string

datatype pyval = PyNone | PyInt int

text \<open>\<^verbatim>\<open>str(x)\<close> as \<^verbatim>\<open>'%s'\<close> formats an attribute that holds a string or \<^verbatim>\<open>None\<close>.\<close>

definition py_str :: "string option \<Rightarrow> string" where
  "py_str x = (case x of None \<Rightarrow> ''None'' | Some s \<Rightarrow> s)"

text \<open>\<^verbatim>\<open>'%s:%s' % (a, b)\<close>\<close>

definition fmt_colon :: "string option \<Rightarrow> string option \<Rightarrow> string" where
  "fmt_colon a b = py_str a @ '':'' @ py_str b"

text \<open>\<^verbatim>\<open>xs[0]\<close> raises \<^verbatim>\<open>IndexError\<close> on an empty sequence.\<close>

definition item0 :: "'a list \<Rightarrow> error + 'a" where
  "item0 xs = (case xs of [] \<Rightarrow> Inl IndexError | x # _ \<Rightarrow> Inr x)"

text \<open>
  A Python \<^verbatim>\<open>dict\<close> as an association list in insertion order: storing under a key
  that is present replaces the value where it stands.
\<close>

fun dict_setitem :: "'k \<Rightarrow> 'v \<Rightarrow> ('k \<times> 'v) list \<Rightarrow> ('k \<times> 'v) list" where
  "dict_setitem k v [] = [(k, v)]"
| "dict_setitem k v (p # ps) = (if fst p = k then (k, v) # ps else p # dict_setitem k v ps)"

text \<open>\<^verbatim>\<open>dict(pairs)\<close>\<close>

definition dict_of :: "('k \<times> 'v) list \<Rightarrow> ('k \<times> 'v) list" where
  "dict_of ps = foldl (\<lambda>d p. dict_setitem (fst p) (snd p) d) [] ps"

datatype suds_client = Client string

datatype point = Point "real option" "real option"

datatype datetime = Datetime int int int

type_synonym series_data = "(string \<times> real) list"

type_synonym quantity = string

datatype DataFrame = DataFrame "(string option \<times> series_data option) list"

record Units =
  units_name :: "string option"
  abbreviation_attr :: "string option"
  units_code :: "string option"

record Variable =
  variable_name :: "string option"
  variable_code :: "string option"
  variable_id :: "int option"
  vocabulary :: "string option"
  units :: "Units option"
  no_data_value :: "real option"

subsection \<open>Payloads of the remote service\<close>

text \<open>One entry of the \<^verbatim>\<open>site\<close> list that \<^verbatim>\<open>GetSites\<close> answers.\<close>

record wml_siteInfo =
  wml_code :: "string option"
  wml_name :: "string option"
  wml_id :: "int option"
  wml_network :: "string option"
  wml_latitude :: "real option"
  wml_longitude :: "real option"

text \<open>One entry of the \<^verbatim>\<open>series\<close> list of a series catalog.\<close>

record wml_series =
  wml_variable :: "Variable option"
  wml_count :: "int option"
  wml_method :: "string option"
  wml_quality_control_level :: "string option"
  wml_begin_datetime :: "datetime option"
  wml_end_datetime :: "datetime option"

record wml_seriesCatalog =
  catalog_series :: "wml_series list"

record wml_site =
  seriesCatalog :: "wml_seriesCatalog list"

text \<open>
  The object that \<^verbatim>\<open>GetSiteInfoObject\<close> answers. A suds object tests true when it has
  at least one attribute, so a payload with its \<^verbatim>\<open>site\<close> attribute always tests true.
\<close>

record SiteInfoResponse =
  response_site :: "wml_site list"

record TimeSeriesResponse =
  response_values :: series_data
  response_quantity :: quantity

subsection \<open>Entities\<close>

record Source =
  suds_client_attr :: "suds_client option"
  url :: "string option"
  priv_sites :: "(string option \<times> ref) list"
  source_use_cache :: "bool option"

record Site =
  priv_timeseries_list :: "ref list"
  priv_dataframe :: "DataFrame option"
  priv_site_info :: "SiteInfoResponse option"
  site_use_cache :: "bool option"
  source :: "ref option"
  site_name :: "string option"
  site_code :: "string option"
  site_id :: "int option"
  network :: "string option"
  location :: "point option"

record TimeSeries =
  ts_site :: "ref option"
  priv_series :: "series_data option"
  priv_quantity :: "quantity option"
  ts_variable :: "Variable option"
  ts_count :: "int option"
  ts_method :: "string option"
  quality_control_level :: "string option"
  begin_datetime :: "datetime option"
  end_datetime :: "datetime option"

text \<open>
  The class attributes: what an attribute reads before an instance assigns it. The class
  defaults \<^verbatim>\<open>_timeseries_list = ()\<close> and \<^verbatim>\<open>_sites = {}\<close> are the empty sequence and
  the empty dictionary; \<^verbatim>\<open>_series = ()\<close> is \<open>None\<close> here, told apart from a fetched
  (possibly empty) pandas series \<open>Some vs\<close>, and has length 0 all the same.
\<close>

definition Source_class :: Source where
  "Source_class = \<lparr>suds_client_attr = None, url = None, priv_sites = [], source_use_cache = None\<rparr>"

definition Site_class :: Site where
  "Site_class = \<lparr>priv_timeseries_list = [], priv_dataframe = None, priv_site_info = None,
     site_use_cache = None, source = None, site_name = None, site_code = None, site_id = None,
     network = None, location = None\<rparr>"

definition TimeSeries_class :: TimeSeries where
  "TimeSeries_class = \<lparr>ts_site = None, priv_series = None, priv_quantity = None,
     ts_variable = None, ts_count = None, ts_method = None, quality_control_level = None,
     begin_datetime = None, end_datetime = None\<rparr>"

subsection \<open>The store and the calls to the collaborators\<close>

datatype event =
    Call_GetSites suds_client string
  | Call_GetSiteInfoObject suds_client string
  | Call_GetValuesObject suds_client string string string string
  | Call_get_cached_sites ref
  | Call_update_cache_sites "ref list" ref
  | Call_get_cached_timeseries_list ref
  | Call_update_cache_timeseries ref

record world =
  Source_heap :: "ref \<Rightarrow> Source"
  Site_heap :: "ref \<Rightarrow> Site"
  TimeSeries_heap :: "ref \<Rightarrow> TimeSeries"
  next_ref :: ref
  calls :: "event list"

text \<open>
  What the collaborators answer. The remote service (through the suds client), the
  \<^verbatim>\<open>strftime\<close> of the standard library and the truth value pandas gives a
  \<^verbatim>\<open>DataFrame\<close> are outside the repository and are parameters of the model, as is
  the Cache Store.
\<close>

text \<open>
  Modelled from the spec: the Cache Store (module \<^verbatim>\<open>pyhis.cache\<close> is not among the
  sources). \<open>cache_module\<close> says that the module-level name \<^verbatim>\<open>cache\<close> is not
  \<^verbatim>\<open>None\<close>; \<open>get_cached_sites\<close> and \<open>get_cached_timeseries_list\<close> are what
  the store retrieves for a source and for a site (a mapping from code to Site, a list
  of TimeSeries, or empty), as references to objects of the store. What is written to the
  store is recorded among the calls.
\<close>

record env =
  cache_module :: bool
  GetSites :: "suds_client \<Rightarrow> string \<Rightarrow> error + wml_siteInfo list"
  GetSiteInfoObject :: "suds_client \<Rightarrow> string \<Rightarrow> error + SiteInfoResponse"
  GetValuesObject ::
    "suds_client \<Rightarrow> string \<Rightarrow> string \<Rightarrow> string \<Rightarrow> string \<Rightarrow> error + TimeSeriesResponse"
  strftime :: "datetime \<Rightarrow> string \<Rightarrow> string"
  DataFrame_bool :: "DataFrame \<Rightarrow> error + bool"
  get_cached_sites :: "ref \<Rightarrow> (string option \<times> ref) list"
  get_cached_timeseries_list :: "ref \<Rightarrow> ref list"

type_synonym 'a run = "world \<Rightarrow> (error + 'a) \<times> world"

definition returns :: "'a \<Rightarrow> 'a run" where
  "returns x w = (Inr x, w)"

definition raises :: "error \<Rightarrow> 'a run" where
  "raises e w = (Inl e, w)"

definition then_do :: "'a run \<Rightarrow> ('a \<Rightarrow> 'b run) \<Rightarrow> 'b run" where
  "then_do m f w = (case m w of (Inl e, w') \<Rightarrow> (Inl e, w') | (Inr x, w') \<Rightarrow> f x w')"

text \<open>A value that is computed without the store, or the exception it raises.\<close>

definition lift :: "error + 'a \<Rightarrow> 'a run" where
  "lift r w = (r, w)"

text \<open>Reading an attribute of \<^verbatim>\<open>None\<close> raises \<^verbatim>\<open>AttributeError\<close>.\<close>

definition attr_of :: "'a option \<Rightarrow> 'a run" where
  "attr_of x w = (case x of None \<Rightarrow> (Inl AttributeError, w) | Some v \<Rightarrow> (Inr v, w))"

definition record_call :: "event \<Rightarrow> unit run" where
  "record_call ev w = (Inr (), w\<lparr>calls := calls w @ [ev]\<rparr>)"

text \<open>A list comprehension or generator whose body runs in the store, element by element.\<close>

fun for_each :: "('a \<Rightarrow> 'b run) \<Rightarrow> 'a list \<Rightarrow> 'b list run" where
  "for_each f [] w = (Inr [], w)"
| "for_each f (x # xs) w =
     (case f x w of
        (Inl e, w') \<Rightarrow> (Inl e, w')
      | (Inr y, w') \<Rightarrow>
          (case for_each f xs w' of
             (Inl e, w'') \<Rightarrow> (Inl e, w'')
           | (Inr ys, w'') \<Rightarrow> (Inr (y # ys), w'')))"

text \<open>\<^verbatim>\<open>self._use_cache and cache\<close>, as a truth value.\<close>

definition cache_enabled :: "env \<Rightarrow> bool option \<Rightarrow> bool" where
  "cache_enabled E use_cache = (use_cache = Some True \<and> cache_module E)"

subsection \<open>Units and Variable\<close>



subsection \<open>TimeSeries\<close>

definition TimeSeries_init ::
  "Variable option \<Rightarrow> int option \<Rightarrow> string option \<Rightarrow> string option \<Rightarrow> datetime option \<Rightarrow>
   datetime option \<Rightarrow> ref option \<Rightarrow> ref run" where
  "TimeSeries_init variable count meth qcl begin_dt end_dt site w =
     (let self = next_ref w;
          obj = TimeSeries_class\<lparr>ts_variable := variable, ts_count := count, ts_method := meth,
                  quality_control_level := qcl, begin_datetime := begin_dt,
                  end_datetime := end_dt, ts_site := site\<rparr>
      in (Inr self, w\<lparr>TimeSeries_heap := (TimeSeries_heap w)(self := obj),
                       next_ref := Suc self\<rparr>))"

text \<open>
  Modelled from the spec: \<^verbatim>\<open>util._pandas_series_from_wml_TimeSeriesResponseType\<close> (module
  \<^verbatim>\<open>pyhis.util\<close> is not among the sources): the value series and the quantity/unit
  descriptor of one get-values response.
\<close>

definition pandas_series_from_wml_TimeSeriesResponseType ::
  "TimeSeriesResponse \<Rightarrow> series_data \<times> quantity" where
  "pandas_series_from_wml_TimeSeriesResponseType resp =
     (response_values resp, response_quantity resp)"

definition TimeSeries_update_series :: "env \<Rightarrow> ref \<Rightarrow> unit run" where
  "TimeSeries_update_series E self =
     then_do (\<lambda>w. attr_of (ts_site (TimeSeries_heap w self)) w) (\<lambda>site.
     then_do (\<lambda>w. attr_of (source (Site_heap w site)) w) (\<lambda>src.
     then_do (\<lambda>w. attr_of (suds_client_attr (Source_heap w src)) w) (\<lambda>client.
     then_do (\<lambda>w. returns (fmt_colon (network (Site_heap w site)) (site_code (Site_heap w site))) w)
       (\<lambda>site_arg.
     then_do (\<lambda>w. attr_of (ts_variable (TimeSeries_heap w self)) w) (\<lambda>var.
     then_do (\<lambda>w. attr_of (begin_datetime (TimeSeries_heap w self)) w) (\<lambda>begin_dt.
     then_do (\<lambda>w. attr_of (end_datetime (TimeSeries_heap w self)) w) (\<lambda>end_dt.
     then_do (record_call (Call_GetValuesObject client site_arg
                (fmt_colon (vocabulary var) (variable_code var))
                (strftime E begin_dt ''%Y-%m-%d'') (strftime E end_dt ''%Y-%m-%d''))) (\<lambda>_.
     then_do (lift (GetValuesObject E client site_arg
                (fmt_colon (vocabulary var) (variable_code var))
                (strftime E begin_dt ''%Y-%m-%d'') (strftime E end_dt ''%Y-%m-%d''))) (\<lambda>resp.
       (\<lambda>w. let (s, q) = pandas_series_from_wml_TimeSeriesResponseType resp
            in (Inr (), w\<lparr>TimeSeries_heap := (TimeSeries_heap w)
                  (self := (TimeSeries_heap w self)\<lparr>priv_series := Some s,
                                                     priv_quantity := Some q\<rparr>)\<rparr>)))))))))))"

text \<open>\<^verbatim>\<open>len(self._series)\<close>\<close>

definition len_series :: "series_data option \<Rightarrow> nat" where
  "len_series s = (case s of None \<Rightarrow> 0 | Some vs \<Rightarrow> length vs)"

text \<open>The truth value of \<^verbatim>\<open>self._quantity\<close>: \<^verbatim>\<open>None\<close> and the empty string test false.\<close>

definition quantity_bool :: "quantity option \<Rightarrow> bool" where
  "quantity_bool q = (case q of None \<Rightarrow> False | Some s \<Rightarrow> s \<noteq> [])"

definition TimeSeries_series :: "env \<Rightarrow> ref \<Rightarrow> series_data option run" where
  "TimeSeries_series E self =
     then_do (\<lambda>w. if len_series (priv_series (TimeSeries_heap w self)) = 0
                  then TimeSeries_update_series E self w else returns () w) (\<lambda>_.
       (\<lambda>w. returns (priv_series (TimeSeries_heap w self)) w))"

definition TimeSeries_quantity :: "env \<Rightarrow> ref \<Rightarrow> quantity option run" where
  "TimeSeries_quantity E self =
     then_do (\<lambda>w. if \<not> quantity_bool (priv_quantity (TimeSeries_heap w self))
                  then TimeSeries_update_series E self w else returns () w) (\<lambda>_.
       (\<lambda>w. returns (priv_quantity (TimeSeries_heap w self)) w))"

subsection \<open>Site\<close>

definition Site_init ::
  "string option \<Rightarrow> string option \<Rightarrow> int option \<Rightarrow> string option \<Rightarrow> real option \<Rightarrow>
   real option \<Rightarrow> ref option \<Rightarrow> bool \<Rightarrow> ref run" where
  "Site_init code name ident net latitude longitude src use_cache w =
     (let self = next_ref w;
          obj = Site_class\<lparr>site_code := code, site_name := name, site_id := ident,
                  network := net, location := Some (Point longitude latitude),
                  source := src, site_use_cache := Some use_cache\<rparr>
      in (Inr self, w\<lparr>Site_heap := (Site_heap w)(self := obj), next_ref := Suc self\<rparr>))"

definition set_site_info :: "ref \<Rightarrow> SiteInfoResponse \<Rightarrow> unit run" where
  "set_site_info self info w =
     (Inr (), w\<lparr>Site_heap := (Site_heap w)(self := (Site_heap w self)\<lparr>priv_site_info := Some info\<rparr>)\<rparr>)"

definition set_timeseries_list :: "ref \<Rightarrow> ref list \<Rightarrow> unit run" where
  "set_timeseries_list self tsl w =
     (Inr (), w\<lparr>Site_heap := (Site_heap w)(self := (Site_heap w self)\<lparr>priv_timeseries_list := tsl\<rparr>)\<rparr>)"

definition set_dataframe :: "ref \<Rightarrow> DataFrame \<Rightarrow> unit run" where
  "set_dataframe self df w =
     (Inr (), w\<lparr>Site_heap := (Site_heap w)(self := (Site_heap w self)\<lparr>priv_dataframe := Some df\<rparr>)\<rparr>)"

text \<open>
  \<^verbatim>\<open>_update_site_info\<close> stores the answer in \<^verbatim>\<open>_site_info\<close> first and checks its
  shape afterwards.
\<close>

definition Site_update_site_info :: "env \<Rightarrow> ref \<Rightarrow> unit run" where
  "Site_update_site_info E self =
     then_do (\<lambda>w. attr_of (source (Site_heap w self)) w) (\<lambda>src.
     then_do (\<lambda>w. attr_of (suds_client_attr (Source_heap w src)) w) (\<lambda>client.
     then_do (\<lambda>w. returns (fmt_colon (network (Site_heap w self)) (site_code (Site_heap w self))) w)
       (\<lambda>arg.
     then_do (record_call (Call_GetSiteInfoObject client arg)) (\<lambda>_.
     then_do (lift (GetSiteInfoObject E client arg)) (\<lambda>info.
     then_do (set_site_info self info) (\<lambda>_.
       if length (response_site info) > 1 then raises NotImplementedError
       else then_do (lift (item0 (response_site info))) (\<lambda>site0.
              if length (seriesCatalog site0) > 1 then raises NotImplementedError
              else returns ())))))))"

definition Site_site_info :: "env \<Rightarrow> ref \<Rightarrow> SiteInfoResponse option run" where
  "Site_site_info E self =
     then_do (\<lambda>w. if priv_site_info (Site_heap w self) = None
                  then Site_update_site_info E self w else returns () w) (\<lambda>_.
       (\<lambda>w. returns (priv_site_info (Site_heap w self)) w))"

text \<open>
  Modelled from the spec: \<^verbatim>\<open>util._timeseries_from_wml_series\<close> (module \<^verbatim>\<open>pyhis.util\<close>
  is not among the sources): a TimeSeries built from one series descriptor of the
  catalog, with the site as its back-reference.
\<close>

definition timeseries_from_wml_series :: "wml_series \<Rightarrow> ref \<Rightarrow> ref run" where
  "timeseries_from_wml_series series site =
     TimeSeries_init (wml_variable series) (wml_count series) (wml_method series)
       (wml_quality_control_level series) (wml_begin_datetime series)
       (wml_end_datetime series) (Some site)"

definition Site_update_timeseries_list :: "env \<Rightarrow> ref \<Rightarrow> unit run" where
  "Site_update_timeseries_list E self =
     then_do (\<lambda>w. returns (cache_enabled E (site_use_cache (Site_heap w self))) w) (\<lambda>enabled.
     then_do (if enabled
              then then_do (record_call (Call_get_cached_timeseries_list self)) (\<lambda>_.
                     if length (get_cached_timeseries_list E self) \<noteq> 0
                     then then_do (set_timeseries_list self (get_cached_timeseries_list E self))
                            (\<lambda>_. returns True)
                     else returns False)
              else returns False) (\<lambda>done_from_cache.
       if done_from_cache then returns ()
       else
         then_do (Site_site_info E self) (\<lambda>info_attr.
         then_do (attr_of info_attr) (\<lambda>info.
         then_do (lift (item0 (response_site info))) (\<lambda>site0.
         then_do (lift (item0 (seriesCatalog site0))) (\<lambda>catalog0.
         then_do (for_each (\<lambda>series. timeseries_from_wml_series series self)
                    (catalog_series catalog0)) (\<lambda>tsl.
         then_do (set_timeseries_list self tsl) (\<lambda>_.
           if enabled then record_call (Call_update_cache_timeseries self)
           else returns ()))))))))"

definition Site_timeseries_list :: "env \<Rightarrow> ref \<Rightarrow> ref list run" where
  "Site_timeseries_list E self =
     then_do (\<lambda>w. if length (priv_timeseries_list (Site_heap w self)) = 0
                  then Site_update_timeseries_list E self w else returns () w) (\<lambda>_.
       (\<lambda>w. returns (priv_timeseries_list (Site_heap w self)) w))"

text \<open>One pair \<^verbatim>\<open>(ts.variable.code, ts.series)\<close> of the generator in \<^verbatim>\<open>_update_dataframe\<close>.\<close>

definition dataframe_column :: "env \<Rightarrow> ref \<Rightarrow> (string option \<times> series_data option) run" where
  "dataframe_column E ts =
     then_do (\<lambda>w. attr_of (ts_variable (TimeSeries_heap w ts)) w) (\<lambda>var.
     then_do (TimeSeries_series E ts) (\<lambda>s.
       returns (variable_code var, s)))"

definition Site_update_dataframe :: "env \<Rightarrow> ref \<Rightarrow> unit run" where
  "Site_update_dataframe E self =
     then_do (Site_timeseries_list E self) (\<lambda>tsl.
     then_do (for_each (dataframe_column E) tsl) (\<lambda>pairs.
       set_dataframe self (DataFrame (dict_of pairs))))"

text \<open>
  \<^verbatim>\<open>not self._dataframe\<close>: true for \<^verbatim>\<open>None\<close>; for a \<^verbatim>\<open>DataFrame\<close>, what pandas
  answers (a truth value, or an exception).
\<close>

definition not_dataframe :: "env \<Rightarrow> DataFrame option \<Rightarrow> bool run" where
  "not_dataframe E d =
     (case d of
        None \<Rightarrow> returns True
      | Some df \<Rightarrow> (case DataFrame_bool E df of Inl e \<Rightarrow> raises e | Inr b \<Rightarrow> returns (\<not> b)))"

definition Site_dataframe :: "env \<Rightarrow> ref \<Rightarrow> DataFrame option run" where
  "Site_dataframe E self =
     then_do (\<lambda>w. if priv_timeseries_list (Site_heap w self) = []
                  then Site_update_site_info E self w else returns () w) (\<lambda>_.
     then_do (\<lambda>w. not_dataframe E (priv_dataframe (Site_heap w self)) w) (\<lambda>missing.
     then_do (if missing then Site_update_dataframe E self else returns ()) (\<lambda>_.
       (\<lambda>w. returns (priv_dataframe (Site_heap w self)) w))))"

subsection \<open>Source\<close>

definition Source_init :: "string \<Rightarrow> bool \<Rightarrow> ref run" where
  "Source_init wsdl_url use_cache w =
     (let self = next_ref w;
          obj = Source_class\<lparr>url := Some wsdl_url, suds_client_attr := Some (Client wsdl_url),
                  source_use_cache := Some use_cache\<rparr>
      in (Inr self, w\<lparr>Source_heap := (Source_heap w)(self := obj), next_ref := Suc self\<rparr>))"

definition set_sites :: "ref \<Rightarrow> (string option \<times> ref) list \<Rightarrow> unit run" where
  "set_sites self d w =
     (Inr (), w\<lparr>Source_heap := (Source_heap w)(self := (Source_heap w self)\<lparr>priv_sites := d\<rparr>)\<rparr>)"

text \<open>
  Modelled from the spec: \<^verbatim>\<open>util._site_from_wml_siteInfo\<close> (module \<^verbatim>\<open>pyhis.util\<close> is
  not among the sources): each returned descriptor becomes a Site instance bound to the
  Source. The descriptor says nothing of caching, so the constructor's default
  \<^verbatim>\<open>use_cache=True\<close> stands.
\<close>

definition site_from_wml_siteInfo :: "wml_siteInfo \<Rightarrow> ref \<Rightarrow> ref run" where
  "site_from_wml_siteInfo info src =
     Site_init (wml_code info) (wml_name info) (wml_id info) (wml_network info)
       (wml_latitude info) (wml_longitude info) (Some src) True"

definition Source_update_sites :: "env \<Rightarrow> ref \<Rightarrow> unit run" where
  "Source_update_sites E self =
     then_do (\<lambda>w. returns (cache_enabled E (source_use_cache (Source_heap w self))) w) (\<lambda>enabled.
     then_do (if enabled
              then then_do (record_call (Call_get_cached_sites self)) (\<lambda>_.
                     if length (get_cached_sites E self) \<noteq> 0
                     then then_do (set_sites self (get_cached_sites E self)) (\<lambda>_. returns True)
                     else returns False)
              else returns False) (\<lambda>done_from_cache.
       if done_from_cache then returns ()
       else
         then_do (\<lambda>w. attr_of (suds_client_attr (Source_heap w self)) w) (\<lambda>client.
         then_do (record_call (Call_GetSites client [])) (\<lambda>_.
         then_do (lift (GetSites E client [])) (\<lambda>query_site.
         then_do (for_each (\<lambda>site. site_from_wml_siteInfo site self) query_site) (\<lambda>site_list.
         then_do (\<lambda>w. set_sites self
                    (dict_of (map (\<lambda>site. (site_code (Site_heap w site), site)) site_list)) w) (\<lambda>_.
           if enabled then record_call (Call_update_cache_sites site_list self)
           else returns ())))))))"

definition Source_sites :: "env \<Rightarrow> ref \<Rightarrow> (string option \<times> ref) list run" where
  "Source_sites E self =
     then_do (\<lambda>w. if priv_sites (Source_heap w self) = []
                  then Source_update_sites E self w else returns () w) (\<lambda>_.
       (\<lambda>w. returns (priv_sites (Source_heap w self)) w))"

text \<open>
  \<^verbatim>\<open>__len__\<close> evaluates \<^verbatim>\<open>len(self._sites)\<close> as an expression statement and falls off
  the end of its body, so it returns \<^verbatim>\<open>None\<close>.
\<close>

definition Source_len :: "ref \<Rightarrow> pyval run" where
  "Source_len self w = (let n = length (priv_sites (Source_heap w self)) in (Inr PyNone, w))"

text \<open>
  The built-in \<^verbatim>\<open>len(obj)\<close> calls \<^verbatim>\<open>obj.__len__()\<close> and raises \<^verbatim>\<open>TypeError\<close>
  unless the result is an integer (\<^verbatim>\<open>ValueError\<close> when it is negative).
\<close>

definition builtin_len :: "pyval run \<Rightarrow> int run" where
  "builtin_len dunder_len =
     then_do dunder_len (\<lambda>r.
       case r of
         PyNone \<Rightarrow> raises TypeError
       | PyInt n \<Rightarrow> if n < 0 then raises ValueError else returns n)"

subsection \<open>Predicates and sample data\<close>

text \<open>
  The pair \<^verbatim>\<open>_series\<close>, \<^verbatim>\<open>_quantity\<close> of a TimeSeries: both still at their class
  defaults, or both assigned.
\<close>

definition both_or_neither :: "TimeSeries \<Rightarrow> bool" where
  "both_or_neither ts = ((priv_series ts = None) = (priv_quantity ts = None))"

definition pairs_ok :: "world \<Rightarrow> bool" where
  "pairs_ok w = (\<forall>r. both_or_neither (TimeSeries_heap w r))"

text \<open>A small service, and the store in which nothing has been constructed yet.\<close>

definition demo_siteInfo :: wml_siteInfo where
  "demo_siteInfo = \<lparr>wml_code = Some ''01234'', wml_name = Some ''Demo site'', wml_id = Some 1,
     wml_network = Some ''NWISDV'', wml_latitude = Some 30, wml_longitude = Some (-97)\<rparr>"

definition demo_variable :: Variable where
  "demo_variable = \<lparr>variable_name = Some ''Discharge'', variable_code = Some ''00060'',
     variable_id = Some 1, vocabulary = Some ''NWISDV'', units = None, no_data_value = None\<rparr>"

definition demo_series :: wml_series where
  "demo_series = \<lparr>wml_variable = Some demo_variable, wml_count = Some 2, wml_method = None,
     wml_quality_control_level = None, wml_begin_datetime = Some (Datetime 2000 1 1),
     wml_end_datetime = Some (Datetime 2000 1 2)\<rparr>"

definition demo_site_info :: SiteInfoResponse where
  "demo_site_info = \<lparr>response_site = [\<lparr>seriesCatalog = [\<lparr>catalog_series = [demo_series]\<rparr>]\<rparr>]\<rparr>"

definition demo_values :: TimeSeriesResponse where
  "demo_values = \<lparr>response_values = [(''2000-01-01'', 1), (''2000-01-02'', 2)],
     response_quantity = ''cfs''\<rparr>"

definition demo_env :: env where
  "demo_env = \<lparr>cache_module = True,
     GetSites = (\<lambda>c f. Inr [demo_siteInfo]),
     GetSiteInfoObject = (\<lambda>c a. Inr demo_site_info),
     GetValuesObject = (\<lambda>c a b d e. Inr demo_values),
     strftime = (\<lambda>d f. ''2000-01-01''),
     DataFrame_bool = (\<lambda>d. Inr True),
     get_cached_sites = (\<lambda>r. []),
     get_cached_timeseries_list = (\<lambda>r. [])\<rparr>"

definition empty_world :: world where
  "empty_world = \<lparr>Source_heap = (\<lambda>r. Source_class), Site_heap = (\<lambda>r. Site_class),
     TimeSeries_heap = (\<lambda>r. TimeSeries_class), next_ref = 0, calls = []\<rparr>"

text \<open>
  The TimeSeries object that \<open>timeseries_from_wml_series\<close> stores for a descriptor, and
  the get-values request that this TimeSeries makes for a site argument (the arguments
  are empty strings where the descriptor lacks the attribute they are read from; the
  request is then never made).
\<close>

definition new_TimeSeries :: "wml_series \<Rightarrow> ref \<Rightarrow> TimeSeries" where
  "new_TimeSeries d site =
     TimeSeries_class\<lparr>ts_variable := wml_variable d, ts_count := wml_count d,
       ts_method := wml_method d, quality_control_level := wml_quality_control_level d,
       begin_datetime := wml_begin_datetime d, end_datetime := wml_end_datetime d,
       ts_site := Some site\<rparr>"

definition variable_arg :: "wml_series \<Rightarrow> string" where
  "variable_arg d =
     (case wml_variable d of None \<Rightarrow> [] | Some v \<Rightarrow> fmt_colon (vocabulary v) (variable_code v))"

definition date_arg :: "env \<Rightarrow> datetime option \<Rightarrow> string" where
  "date_arg E t = (case t of None \<Rightarrow> [] | Some dt \<Rightarrow> strftime E dt ''%Y-%m-%d'')"

definition values_request :: "env \<Rightarrow> suds_client \<Rightarrow> string \<Rightarrow> wml_series \<Rightarrow> event" where
  "values_request E client site_arg d =
     Call_GetValuesObject client site_arg (variable_arg d)
       (date_arg E (wml_begin_datetime d)) (date_arg E (wml_end_datetime d))"

text \<open>
  The descriptor names its variable and both dates, and the gateway answers the request.
\<close>

definition series_fetchable :: "env \<Rightarrow> suds_client \<Rightarrow> string \<Rightarrow> wml_series \<Rightarrow> bool" where
  "series_fetchable E client site_arg d =
     (wml_variable d \<noteq> None \<and> wml_begin_datetime d \<noteq> None \<and> wml_end_datetime d \<noteq> None
      \<and> (case GetValuesObject E client site_arg (variable_arg d)
                  (date_arg E (wml_begin_datetime d)) (date_arg E (wml_end_datetime d)) of
            Inl e \<Rightarrow> False | Inr resp \<Rightarrow> True))"

text \<open>The answer of the gateway to that request, and the column it gives the table.\<close>

definition fetched_series :: "env \<Rightarrow> suds_client \<Rightarrow> string \<Rightarrow> wml_series \<Rightarrow> series_data option" where
  "fetched_series E client site_arg d =
     (case GetValuesObject E client site_arg (variable_arg d)
             (date_arg E (wml_begin_datetime d)) (date_arg E (wml_end_datetime d)) of
        Inl e \<Rightarrow> None | Inr resp \<Rightarrow> Some (response_values resp))"

definition fetched_quantity :: "env \<Rightarrow> suds_client \<Rightarrow> string \<Rightarrow> wml_series \<Rightarrow> quantity option" where
  "fetched_quantity E client site_arg d =
     (case GetValuesObject E client site_arg (variable_arg d)
             (date_arg E (wml_begin_datetime d)) (date_arg E (wml_end_datetime d)) of
        Inl e \<Rightarrow> None | Inr resp \<Rightarrow> Some (response_quantity resp))"

definition column_of :: "env \<Rightarrow> suds_client \<Rightarrow> string \<Rightarrow> wml_series \<Rightarrow> string option \<times> series_data option" where
  "column_of E client site_arg d =
     ((case wml_variable d of None \<Rightarrow> None | Some v \<Rightarrow> variable_code v),
      fetched_series E client site_arg d)"

text \<open>
  A site-detail payload that \<^verbatim>\<open>_update_site_info\<close> rejects: more than one site entry,
  or a single site entry with more than one series catalog.
\<close>

definition unsupported_shape :: "SiteInfoResponse \<Rightarrow> bool" where
  "unsupported_shape info =
     (case response_site info of
        [] \<Rightarrow> False
      | [site0] \<Rightarrow> length (seriesCatalog site0) > 1
      | _ \<Rightarrow> True)"

definition two_sites_info :: SiteInfoResponse where
  "two_sites_info = \<lparr>response_site =
     [\<lparr>seriesCatalog = [\<lparr>catalog_series = [demo_series]\<rparr>]\<rparr>,
      \<lparr>seriesCatalog = [\<lparr>catalog_series = []\<rparr>]\<rparr>]\<rparr>"

text \<open>The TimeSeries of a descriptor after its values have been fetched.\<close>

definition fetched_TimeSeries :: "env \<Rightarrow> suds_client \<Rightarrow> string \<Rightarrow> wml_series \<Rightarrow> ref \<Rightarrow> TimeSeries" where
  "fetched_TimeSeries E client site_arg d site =
     (new_TimeSeries d site)\<lparr>priv_series := fetched_series E client site_arg d,
                              priv_quantity := fetched_quantity E client site_arg d\<rparr>"

text \<open>A Source and one freshly constructed Site of it, both without caching.\<close>

definition demo_site_world :: world where
  "demo_site_world =
     snd (Site_init (Some ''01234'') (Some ''Demo site'') (Some 1) (Some ''NWISDV'') (Some 30)
            (Some (-97)) (Some 0) False
       (snd (Source_init ''http://example.org/wml'' False empty_world)))"

text \<open>A method keeps the pairs of every TimeSeries of the store consistent.\<close>

definition keeps_pairs :: "'a run \<Rightarrow> bool" where
  "keeps_pairs m = (\<forall>w. pairs_ok w \<longrightarrow> pairs_ok (snd (m w)))"

text \<open>The sample store with one TimeSeries of the sample Site, not yet fetched.\<close>

definition demo_ts_world :: world where
  "demo_ts_world =
     snd (TimeSeries_init (Some demo_variable) (Some 2) None None (Some (Datetime 2000 1 1))
            (Some (Datetime 2000 1 2)) (Some 1) demo_site_world)"

text \<open>A service whose answers are all empty: no sites, an empty series catalog, no values.\<close>

definition empty_catalog_info :: SiteInfoResponse where
  "empty_catalog_info = \<lparr>response_site = [\<lparr>seriesCatalog = [\<lparr>catalog_series = []\<rparr>]\<rparr>]\<rparr>"

definition empty_env :: env where
  "empty_env = demo_env\<lparr>GetSites := (\<lambda>c f. Inr []),
     GetSiteInfoObject := (\<lambda>c a. Inr empty_catalog_info),
     GetValuesObject := (\<lambda>c a b d e. Inr \<lparr>response_values = [], response_quantity = ''cfs''\<rparr>)\<rparr>"

text \<open>The sample store after the Site has read its (empty) series catalog.\<close>

definition empty_catalog_world :: world where
  "empty_catalog_world = snd (Site_site_info empty_env 1 demo_ts_world)"

text \<open>
  The calls that go to the remote service, and their number in the record of a store; the
  truth value of the \<^verbatim>\<open>_dataframe\<close> attribute when pandas gives one.
\<close>

fun is_remote :: "event \<Rightarrow> bool" where
  "is_remote (Call_GetSites c f) = True"
| "is_remote (Call_GetSiteInfoObject c a) = True"
| "is_remote (Call_GetValuesObject c a b d e) = True"
| "is_remote (Call_get_cached_sites s) = False"
| "is_remote (Call_update_cache_sites l s) = False"
| "is_remote (Call_get_cached_timeseries_list s) = False"
| "is_remote (Call_update_cache_timeseries s) = False"

definition remote_calls :: "world \<Rightarrow> nat" where
  "remote_calls w = length (filter is_remote (calls w))"



section \<open>Auxiliary facts\<close>

lemmas run_defs = returns_def raises_def then_do_def lift_def attr_of_def record_call_def

lemma for_each_site_from_wml_siteInfo:
  "for_each (\<lambda>d. site_from_wml_siteInfo d src) ds w = (res, w') \<Longrightarrow>
     res = Inr [next_ref w ..< next_ref w + length ds]
     \<and> next_ref w' = next_ref w + length ds
     \<and> calls w' = calls w
     \<and> Source_heap w' = Source_heap w
     \<and> TimeSeries_heap w' = TimeSeries_heap w
     \<and> (\<forall>r. r < next_ref w \<or> next_ref w + length ds \<le> r \<longrightarrow> Site_heap w' r = Site_heap w r)
     \<and> (\<forall>i < length ds. Site_heap w' (next_ref w + i) =
           Site_class\<lparr>site_code := wml_code (ds ! i), site_name := wml_name (ds ! i),
             site_id := wml_id (ds ! i), network := wml_network (ds ! i),
             location := Some (Point (wml_longitude (ds ! i)) (wml_latitude (ds ! i))),
             source := Some src, site_use_cache := Some True\<rparr>)"
proof (induction ds arbitrary: w res w')
  case Nil
  then show ?case by auto
next
  case (Cons d ds)
  define w1 where "w1 = snd (site_from_wml_siteInfo d src w)"
  have step: "site_from_wml_siteInfo d src w = (Inr (next_ref w), w1)"
    by (simp add: w1_def site_from_wml_siteInfo_def Site_init_def Let_def)
  have w1: "next_ref w1 = Suc (next_ref w)" "calls w1 = calls w" "Source_heap w1 = Source_heap w"
    "TimeSeries_heap w1 = TimeSeries_heap w"
    "Site_heap w1 = (Site_heap w)(next_ref w :=
        Site_class\<lparr>site_code := wml_code d, site_name := wml_name d,
             site_id := wml_id d, network := wml_network d,
             location := Some (Point (wml_longitude d) (wml_latitude d)),
             source := Some src, site_use_cache := Some True\<rparr>)"
    by (simp_all add: w1_def site_from_wml_siteInfo_def Site_init_def Let_def)
  obtain res1 w2 where rest: "for_each (\<lambda>d. site_from_wml_siteInfo d src) ds w1 = (res1, w2)"
    by (cases "for_each (\<lambda>d. site_from_wml_siteInfo d src) ds w1") auto
  note IH = Cons.IH [OF rest, unfolded w1]
  from IH have res1: "res1 = Inr [Suc (next_ref w) ..< Suc (next_ref w) + length ds]" by simp
  from Cons.prems step rest res1
  have out: "res = Inr (next_ref w # [Suc (next_ref w) ..< Suc (next_ref w) + length ds])" "w' = w2"
    by simp_all
  have a: "res = Inr [next_ref w ..< next_ref w + length (d # ds)]"
    using out(1) by (simp add: upt_conv_Cons del: upt_Suc)
  have b: "\<forall>r. r < next_ref w \<or> next_ref w + length (d # ds) \<le> r \<longrightarrow> Site_heap w' r = Site_heap w r"
    using IH out(2) by auto
  have c: "\<forall>i < length (d # ds). Site_heap w' (next_ref w + i) =
           Site_class\<lparr>site_code := wml_code ((d # ds) ! i), site_name := wml_name ((d # ds) ! i),
             site_id := wml_id ((d # ds) ! i), network := wml_network ((d # ds) ! i),
             location := Some (Point (wml_longitude ((d # ds) ! i)) (wml_latitude ((d # ds) ! i))),
             source := Some src, site_use_cache := Some True\<rparr>"
  proof (intro allI impI)
    fix i assume "i < length (d # ds)"
    show "Site_heap w' (next_ref w + i) =
           Site_class\<lparr>site_code := wml_code ((d # ds) ! i), site_name := wml_name ((d # ds) ! i),
             site_id := wml_id ((d # ds) ! i), network := wml_network ((d # ds) ! i),
             location := Some (Point (wml_longitude ((d # ds) ! i)) (wml_latitude ((d # ds) ! i))),
             source := Some src, site_use_cache := Some True\<rparr>"
    proof (cases i)
      case 0
      then show ?thesis using IH out(2) by simp
    next
      case (Suc j)
      with \<open>i < length (d # ds)\<close> have "j < length ds" by simp
      with IH have "Site_heap w2 (Suc (next_ref w) + j) =
           Site_class\<lparr>site_code := wml_code (ds ! j), site_name := wml_name (ds ! j),
             site_id := wml_id (ds ! j), network := wml_network (ds ! j),
             location := Some (Point (wml_longitude (ds ! j)) (wml_latitude (ds ! j))),
             source := Some src, site_use_cache := Some True\<rparr>" by blast
      then show ?thesis using Suc out(2) by simp
    qed
  qed
  from IH out(2) a b c show ?case by simp
qed


lemma Source_sites_fetch:
  assumes empty: "priv_sites (Source_heap w self) = []"
    and nocache: "cache_enabled E (source_use_cache (Source_heap w self)) \<longrightarrow> get_cached_sites E self = []"
    and client: "suds_client_attr (Source_heap w self) = Some client"
    and answer: "GetSites E client [] = Inr ds"
  shows "fst (Source_sites E self w) = Inr (dict_of (zip (map wml_code ds) [next_ref w ..< next_ref w + length ds]))
    \<and> priv_sites (Source_heap (snd (Source_sites E self w)) self)
        = dict_of (zip (map wml_code ds) [next_ref w ..< next_ref w + length ds])
    \<and> calls (snd (Source_sites E self w)) =
        calls w
        @ (if cache_enabled E (source_use_cache (Source_heap w self)) then [Call_get_cached_sites self] else [])
        @ [Call_GetSites client []]
        @ (if cache_enabled E (source_use_cache (Source_heap w self))
           then [Call_update_cache_sites [next_ref w ..< next_ref w + length ds] self] else [])
    \<and> (\<forall>i < length ds. Site_heap (snd (Source_sites E self w)) (next_ref w + i) =
           Site_class\<lparr>site_code := wml_code (ds ! i), site_name := wml_name (ds ! i),
             site_id := wml_id (ds ! i), network := wml_network (ds ! i),
             location := Some (Point (wml_longitude (ds ! i)) (wml_latitude (ds ! i))),
             source := Some self, site_use_cache := Some True\<rparr>)
    \<and> suds_client_attr (Source_heap (snd (Source_sites E self w)) self) = Some client
    \<and> source_use_cache (Source_heap (snd (Source_sites E self w)) self)
        = source_use_cache (Source_heap w self)
    \<and> next_ref (snd (Source_sites E self w)) = next_ref w + length ds"
proof -
  define en where "en = cache_enabled E (source_use_cache (Source_heap w self))"
  define w1 where "w1 = w\<lparr>calls := calls w @ (if en then [Call_get_cached_sites self] else [])
                                   @ [Call_GetSites client []]\<rparr>"
  obtain res w2 where fe: "for_each (\<lambda>d. site_from_wml_siteInfo d self) ds w1 = (res, w2)"
    by (cases "for_each (\<lambda>d. site_from_wml_siteInfo d self) ds w1") auto
  note L = for_each_site_from_wml_siteInfo [OF fe]
  have n1: "next_ref w1 = next_ref w" "calls w1 = calls w @ (if en then [Call_get_cached_sites self] else [])
                                   @ [Call_GetSites client []]" "Source_heap w1 = Source_heap w"
    by (simp_all add: w1_def)
  have res: "res = Inr [next_ref w ..< next_ref w + length ds]" using L n1 by simp
  have codes: "map (\<lambda>site. (site_code (Site_heap w2 site), site)) [next_ref w ..< next_ref w + length ds]
      = zip (map wml_code ds) [next_ref w ..< next_ref w + length ds]"
    using L n1 by (auto intro!: nth_equalityI simp: Site_class_def)
  have run: "Source_sites E self w =
      (Inr (dict_of (zip (map wml_code ds) [next_ref w ..< next_ref w + length ds])),
       w2\<lparr>Source_heap := (Source_heap w2)(self := (Source_heap w2 self)
             \<lparr>priv_sites := dict_of (zip (map wml_code ds) [next_ref w ..< next_ref w + length ds])\<rparr>),
          calls := calls w2 @ (if en then [Call_update_cache_sites [next_ref w ..< next_ref w + length ds] self] else [])\<rparr>)"
    using empty nocache client answer fe [unfolded w1_def] res codes
    by (cases en) (simp_all add: Source_sites_def Source_update_sites_def set_sites_def run_defs en_def [symmetric] del: upt_Suc)
  show ?thesis
    unfolding run en_def [symmetric] using L n1 client by (simp add: en_def)
qed


lemma update_series_Inr:
  assumes "TimeSeries_update_series E self w = (Inr u, w')"
  shows "\<exists>client a b c d resp. GetValuesObject E client a b c d = Inr resp
             \<and> w' = w\<lparr>calls := calls w @ [Call_GetValuesObject client a b c d],
                       TimeSeries_heap := (TimeSeries_heap w)(self := (TimeSeries_heap w self)
                          \<lparr>priv_series := Some (response_values resp),
                           priv_quantity := Some (response_quantity resp)\<rparr>)\<rparr>"
  using assms
  unfolding TimeSeries_update_series_def then_do_def attr_of_def returns_def record_call_def lift_def
    pandas_series_from_wml_TimeSeriesResponseType_def
  apply (simp split: option.splits sum.splits prod.splits)
  apply (intro exI conjI)
   apply assumption
  apply (erule sym)
  done

lemma update_series_Inl:
  assumes "TimeSeries_update_series E self w = (Inl e, w')"
  shows "TimeSeries_heap w' = TimeSeries_heap w \<and> Site_heap w' = Site_heap w
             \<and> Source_heap w' = Source_heap w \<and> next_ref w' = next_ref w"
  using assms
  unfolding TimeSeries_update_series_def then_do_def attr_of_def returns_def record_call_def lift_def
    pandas_series_from_wml_TimeSeriesResponseType_def
  by (auto split: option.splits sum.splits prod.splits)

lemma timeseries_from_wml_series_run:
  "timeseries_from_wml_series d site w =
     (Inr (next_ref w),
      w\<lparr>TimeSeries_heap := (TimeSeries_heap w)(next_ref w := new_TimeSeries d site),
        next_ref := Suc (next_ref w)\<rparr>)"
  by (simp add: timeseries_from_wml_series_def TimeSeries_init_def new_TimeSeries_def Let_def)

lemma for_each_timeseries_from_wml_series:
  "for_each (\<lambda>d. timeseries_from_wml_series d site) ds w = (res, w') \<Longrightarrow>
     res = Inr [next_ref w ..< next_ref w + length ds]
     \<and> next_ref w' = next_ref w + length ds
     \<and> calls w' = calls w
     \<and> Source_heap w' = Source_heap w
     \<and> Site_heap w' = Site_heap w
     \<and> (\<forall>r. r < next_ref w \<or> next_ref w + length ds \<le> r \<longrightarrow>
            TimeSeries_heap w' r = TimeSeries_heap w r)
     \<and> (\<forall>i < length ds. TimeSeries_heap w' (next_ref w + i) = new_TimeSeries (ds ! i) site)"
proof (induction ds arbitrary: w res w')
  case Nil
  then show ?case by auto
next
  case (Cons d ds)
  define w1 where "w1 = snd (timeseries_from_wml_series d site w)"
  have step: "timeseries_from_wml_series d site w = (Inr (next_ref w), w1)"
    by (simp add: w1_def timeseries_from_wml_series_run)
  have w1: "next_ref w1 = Suc (next_ref w)" "calls w1 = calls w" "Source_heap w1 = Source_heap w"
    "Site_heap w1 = Site_heap w"
    "TimeSeries_heap w1 = (TimeSeries_heap w)(next_ref w := new_TimeSeries d site)"
    by (simp_all add: w1_def timeseries_from_wml_series_run)
  obtain res1 w2 where rest: "for_each (\<lambda>d. timeseries_from_wml_series d site) ds w1 = (res1, w2)"
    by (cases "for_each (\<lambda>d. timeseries_from_wml_series d site) ds w1") auto
  note IH = Cons.IH [OF rest, unfolded w1]
  from IH have res1: "res1 = Inr [Suc (next_ref w) ..< Suc (next_ref w) + length ds]" by simp
  from Cons.prems step rest res1
  have out: "res = Inr (next_ref w # [Suc (next_ref w) ..< Suc (next_ref w) + length ds])" "w' = w2"
    by simp_all
  have a: "res = Inr [next_ref w ..< next_ref w + length (d # ds)]"
    using out(1) by (simp add: upt_conv_Cons del: upt_Suc)
  have b: "\<forall>r. r < next_ref w \<or> next_ref w + length (d # ds) \<le> r \<longrightarrow>
      TimeSeries_heap w' r = TimeSeries_heap w r"
    using IH out(2) by auto
  have c: "\<forall>i < length (d # ds). TimeSeries_heap w' (next_ref w + i) = new_TimeSeries ((d # ds) ! i) site"
  proof (intro allI impI)
    fix i assume "i < length (d # ds)"
    show "TimeSeries_heap w' (next_ref w + i) = new_TimeSeries ((d # ds) ! i) site"
    proof (cases i)
      case 0
      then show ?thesis using IH out(2) by simp
    next
      case (Suc j)
      with \<open>i < length (d # ds)\<close> have "j < length ds" by simp
      with IH have "TimeSeries_heap w2 (Suc (next_ref w) + j) = new_TimeSeries (ds ! j) site"
        by blast
      then show ?thesis using Suc out(2) by simp
    qed
  qed
  from IH out(2) a b c show ?case by simp
qed

text \<open>The shape check of \<^verbatim>\<open>_update_site_info\<close>, as the result it leaves.\<close>

lemma Site_update_site_info_run:
  assumes "source (Site_heap w self) = Some src"
    and "suds_client_attr (Source_heap w src) = Some client"
    and "GetSiteInfoObject E client
           (fmt_colon (network (Site_heap w self)) (site_code (Site_heap w self))) = Inr info"
  shows "Site_update_site_info E self w =
     ((if length (response_site info) > 1 then Inl NotImplementedError
       else case response_site info of
              [] \<Rightarrow> Inl IndexError
            | site0 # _ \<Rightarrow> if length (seriesCatalog site0) > 1 then Inl NotImplementedError
                           else Inr ()),
      w\<lparr>Site_heap := (Site_heap w)(self := (Site_heap w self)\<lparr>priv_site_info := Some info\<rparr>),
        calls := calls w @ [Call_GetSiteInfoObject client
           (fmt_colon (network (Site_heap w self)) (site_code (Site_heap w self)))]\<rparr>)"
  using assms
  by (simp add: Site_update_site_info_def set_site_info_def item0_def run_defs split: list.splits)

lemma unsupported_shape_check:
  "unsupported_shape info \<Longrightarrow>
     (if length (response_site info) > 1 then Inl NotImplementedError
       else case response_site info of
              [] \<Rightarrow> Inl IndexError
            | site0 # _ \<Rightarrow> if length (seriesCatalog site0) > 1 then Inl NotImplementedError
                           else Inr ()) = Inl NotImplementedError"
  by (auto simp: unsupported_shape_def split: list.splits)

lemma Site_timeseries_list_build:
  assumes empty: "priv_timeseries_list (Site_heap w self) = []"
    and nocache: "cache_enabled E (site_use_cache (Site_heap w self)) \<longrightarrow>
                    get_cached_timeseries_list E self = []"
    and info: "priv_site_info (Site_heap w self) = Some info"
    and sites: "response_site info = site0 # more_sites"
    and catalogs: "seriesCatalog site0 = catalog0 # more_catalogs"
  shows "fst (Site_timeseries_list E self w)
           = Inr [next_ref w ..< next_ref w + length (catalog_series catalog0)]
    \<and> calls (snd (Site_timeseries_list E self w)) =
        calls w
        @ (if cache_enabled E (site_use_cache (Site_heap w self))
           then [Call_get_cached_timeseries_list self, Call_update_cache_timeseries self] else [])
    \<and> next_ref (snd (Site_timeseries_list E self w))
        = next_ref w + length (catalog_series catalog0)
    \<and> Source_heap (snd (Site_timeseries_list E self w)) = Source_heap w
    \<and> Site_heap (snd (Site_timeseries_list E self w)) =
        (Site_heap w)(self := (Site_heap w self)
           \<lparr>priv_timeseries_list := [next_ref w ..< next_ref w + length (catalog_series catalog0)]\<rparr>)
    \<and> (\<forall>r. r < next_ref w \<or> next_ref w + length (catalog_series catalog0) \<le> r \<longrightarrow>
          TimeSeries_heap (snd (Site_timeseries_list E self w)) r = TimeSeries_heap w r)
    \<and> (\<forall>i < length (catalog_series catalog0).
          TimeSeries_heap (snd (Site_timeseries_list E self w)) (next_ref w + i)
            = new_TimeSeries (catalog_series catalog0 ! i) self)"
proof -
  define en where "en = cache_enabled E (site_use_cache (Site_heap w self))"
  define ds where "ds = catalog_series catalog0"
  define w1 where "w1 = w\<lparr>calls := calls w @ (if en then [Call_get_cached_timeseries_list self] else [])\<rparr>"
  obtain res w2 where fe: "for_each (\<lambda>d. timeseries_from_wml_series d self) ds w1 = (res, w2)"
    by (cases "for_each (\<lambda>d. timeseries_from_wml_series d self) ds w1") auto
  note L = for_each_timeseries_from_wml_series [OF fe]
  have n1: "next_ref w1 = next_ref w"
    "calls w1 = calls w @ (if en then [Call_get_cached_timeseries_list self] else [])"
    "Source_heap w1 = Source_heap w" "Site_heap w1 = Site_heap w"
    "TimeSeries_heap w1 = TimeSeries_heap w"
    by (simp_all add: w1_def)
  have res: "res = Inr [next_ref w ..< next_ref w + length ds]" using L n1 by simp
  have run: "Site_timeseries_list E self w =
      (Inr [next_ref w ..< next_ref w + length ds],
       w2\<lparr>Site_heap := (Site_heap w2)(self := (Site_heap w2 self)
             \<lparr>priv_timeseries_list := [next_ref w ..< next_ref w + length ds]\<rparr>),
          calls := calls w2 @ (if en then [Call_update_cache_timeseries self] else [])\<rparr>)"
    using empty nocache info sites catalogs fe [unfolded w1_def ds_def] res [unfolded ds_def]
    by (cases en)
      (simp_all add: Site_timeseries_list_def Site_update_timeseries_list_def Site_site_info_def
        set_timeseries_list_def item0_def run_defs en_def [symmetric] ds_def del: upt_Suc)
  show ?thesis
    unfolding run en_def [symmetric] ds_def [symmetric] using L n1 by simp
qed

lemma dataframe_column_new:
  assumes obj: "TimeSeries_heap w r = new_TimeSeries d site"
    and src: "source (Site_heap w site) = Some src"
    and client: "suds_client_attr (Source_heap w src) = Some client"
    and ok: "series_fetchable E client
               (fmt_colon (network (Site_heap w site)) (site_code (Site_heap w site))) d"
  shows "dataframe_column E r w =
     (Inr (column_of E client (fmt_colon (network (Site_heap w site)) (site_code (Site_heap w site))) d),
      w\<lparr>calls := calls w @ [values_request E client
            (fmt_colon (network (Site_heap w site)) (site_code (Site_heap w site))) d],
        TimeSeries_heap := (TimeSeries_heap w)(r := (new_TimeSeries d site)
          \<lparr>priv_series := fetched_series E client
              (fmt_colon (network (Site_heap w site)) (site_code (Site_heap w site))) d,
           priv_quantity := fetched_quantity E client
              (fmt_colon (network (Site_heap w site)) (site_code (Site_heap w site))) d\<rparr>)\<rparr>)"
  using assms
  by (auto simp: dataframe_column_def TimeSeries_series_def TimeSeries_update_series_def
      new_TimeSeries_def TimeSeries_class_def len_series_def run_defs series_fetchable_def
      column_of_def values_request_def fetched_series_def fetched_quantity_def variable_arg_def
      date_arg_def pandas_series_from_wml_TimeSeriesResponseType_def
      split: sum.splits)

lemma for_each_dataframe_column:
  assumes run: "for_each (dataframe_column E) [n ..< n + length ds] w = (res, w')"
    and objs: "\<forall>i < length ds. TimeSeries_heap w (n + i) = new_TimeSeries (ds ! i) site"
    and src: "source (Site_heap w site) = Some src"
    and client: "suds_client_attr (Source_heap w src) = Some client"
    and arg: "arg = fmt_colon (network (Site_heap w site)) (site_code (Site_heap w site))"
    and ok: "\<forall>d \<in> set ds. series_fetchable E client arg d"
  shows "res = Inr (map (column_of E client arg) ds)
    \<and> calls w' = calls w @ map (values_request E client arg) ds
    \<and> Source_heap w' = Source_heap w \<and> Site_heap w' = Site_heap w \<and> next_ref w' = next_ref w
    \<and> (\<forall>r. r < n \<or> n + length ds \<le> r \<longrightarrow> TimeSeries_heap w' r = TimeSeries_heap w r)
    \<and> (\<forall>i < length ds. TimeSeries_heap w' (n + i) = fetched_TimeSeries E client arg (ds ! i) site)"
  using run objs src client arg ok
proof (induction ds arbitrary: n w res w')
  case Nil
  then show ?case by auto
next
  case (Cons d ds)
  have obj0: "TimeSeries_heap w n = new_TimeSeries d site"
    using Cons.prems(2) by (metis add.right_neutral length_greater_0_conv list.distinct(1) nth_Cons_0)
  have ok0: "series_fetchable E client
               (fmt_colon (network (Site_heap w site)) (site_code (Site_heap w site))) d"
    using Cons.prems(5,6) by simp
  define w1 where "w1 = w\<lparr>calls := calls w @ [values_request E client arg d],
        TimeSeries_heap := (TimeSeries_heap w)(n := fetched_TimeSeries E client arg d site)\<rparr>"
  have step: "dataframe_column E n w = (Inr (column_of E client arg d), w1)"
    using dataframe_column_new [OF obj0 Cons.prems(3) Cons.prems(4) ok0]
    by (simp add: w1_def fetched_TimeSeries_def Cons.prems(5))
  have w1: "calls w1 = calls w @ [values_request E client arg d]" "Source_heap w1 = Source_heap w"
    "Site_heap w1 = Site_heap w" "next_ref w1 = next_ref w"
    "TimeSeries_heap w1 = (TimeSeries_heap w)(n := fetched_TimeSeries E client arg d site)"
    by (simp_all add: w1_def)
  obtain res1 w2 where rest: "for_each (dataframe_column E) [Suc n ..< Suc n + length ds] w1 = (res1, w2)"
    by (cases "for_each (dataframe_column E) [Suc n ..< Suc n + length ds] w1") auto
  have objs1: "\<forall>i < length ds. TimeSeries_heap w1 (Suc n + i) = new_TimeSeries (ds ! i) site"
  proof (intro allI impI)
    fix i assume "i < length ds"
    then have "TimeSeries_heap w (n + Suc i) = new_TimeSeries ((d # ds) ! Suc i) site"
      using Cons.prems(2) by (metis Suc_less_eq length_Cons)
    then show "TimeSeries_heap w1 (Suc n + i) = new_TimeSeries (ds ! i) site"
      by (simp add: w1)
  qed
  have src1: "source (Site_heap w1 site) = Some src" using Cons.prems(3) by (simp add: w1)
  have client1: "suds_client_attr (Source_heap w1 src) = Some client"
    using Cons.prems(4) by (simp add: w1)
  have arg1: "arg = fmt_colon (network (Site_heap w1 site)) (site_code (Site_heap w1 site))"
    using Cons.prems(5) by (simp add: w1)
  have ok1: "\<forall>d \<in> set ds. series_fetchable E client arg d" using Cons.prems(6) by simp
  note IH = Cons.IH [OF rest objs1 src1 client1 arg1 ok1, unfolded w1]
  have unfold: "[n ..< n + length (d # ds)] = n # [Suc n ..< Suc n + length ds]"
    by (simp add: upt_conv_Cons del: upt_Suc)
  from Cons.prems(1) step rest IH
  have out: "res = Inr (column_of E client arg d # map (column_of E client arg) ds)" "w' = w2"
    unfolding unfold by simp_all
  have b: "\<forall>r. r < n \<or> n + length (d # ds) \<le> r \<longrightarrow> TimeSeries_heap w' r = TimeSeries_heap w r"
    using IH out(2) by auto
  have c: "\<forall>i < length (d # ds). TimeSeries_heap w' (n + i)
             = fetched_TimeSeries E client arg ((d # ds) ! i) site"
  proof (intro allI impI)
    fix i assume i: "i < length (d # ds)"
    show "TimeSeries_heap w' (n + i) = fetched_TimeSeries E client arg ((d # ds) ! i) site"
    proof (cases i)
      case 0
      then show ?thesis using IH out(2) by simp
    next
      case (Suc j)
      with i have "j < length ds" by simp
      with IH have "TimeSeries_heap w2 (Suc n + j) = fetched_TimeSeries E client arg (ds ! j) site"
        by blast
      then show ?thesis using Suc out(2) by simp
    qed
  qed
  from IH out b c show ?case by simp
qed

lemma pairs_ok_cong: "TimeSeries_heap w' = TimeSeries_heap w \<Longrightarrow> pairs_ok w' = pairs_ok w"
  by (simp add: pairs_ok_def)

lemma for_each_keeps:
  assumes "\<And>x w. P w \<Longrightarrow> P (snd (f x w))"
  shows "P w \<Longrightarrow> P (snd (for_each f xs w))"
proof (induction xs arbitrary: w)
  case Nil
  then show ?case by simp
next
  case (Cons x xs)
  from Cons.prems have 1: "P (snd (f x w))" by (rule assms)
  obtain r w1 where fx: "f x w = (r, w1)" by (cases "f x w") auto
  with 1 have "P w1" by simp
  then have 2: "P (snd (for_each f xs w1))" by (rule Cons.IH)
  obtain rs w2 where fr: "for_each f xs w1 = (rs, w2)" by (cases "for_each f xs w1") auto
  with 2 have "P w2" by simp
  with fx fr \<open>P w1\<close> show ?case by (auto split: sum.splits)
qed

lemma update_series_keeps:
  assumes "pairs_ok w"
  shows "pairs_ok (snd (TimeSeries_update_series E self w))"
proof (cases "TimeSeries_update_series E self w")
  case (Pair res w')
  show ?thesis
  proof (cases res)
    case (Inl e)
    with Pair update_series_Inl [of E self w e w'] assms show ?thesis
      by (simp add: pairs_ok_def)
  next
    case (Inr u)
    with Pair update_series_Inr [of E self w u w'] assms show ?thesis
      by (auto simp: pairs_ok_def both_or_neither_def)
  qed
qed

lemma series_keeps: "pairs_ok w \<Longrightarrow> pairs_ok (snd (TimeSeries_series E self w))"
  using update_series_keeps [of w E self]
  by (auto simp: TimeSeries_series_def run_defs split: prod.splits sum.splits)

lemma quantity_keeps: "pairs_ok w \<Longrightarrow> pairs_ok (snd (TimeSeries_quantity E self w))"
  using update_series_keeps [of w E self]
  by (auto simp: TimeSeries_quantity_def run_defs split: prod.splits sum.splits)

lemma TimeSeries_init_keeps:
  "pairs_ok w \<Longrightarrow> pairs_ok (snd (TimeSeries_init var cnt meth qcl b e site w))"
  by (simp add: pairs_ok_def TimeSeries_init_def Let_def both_or_neither_def TimeSeries_class_def)

lemma column_keeps: "pairs_ok w \<Longrightarrow> pairs_ok (snd (dataframe_column E ts w))"
  using series_keeps [of w E ts]
  by (auto simp: dataframe_column_def run_defs split: prod.splits sum.splits option.splits)

lemma update_site_info_heap:
  "TimeSeries_heap (snd (Site_update_site_info E self w)) = TimeSeries_heap w"
  by (auto simp: Site_update_site_info_def set_site_info_def item0_def run_defs
      split: prod.splits sum.splits option.splits list.splits)

lemma site_info_heap:
  "TimeSeries_heap (snd (Site_site_info E self w)) = TimeSeries_heap w"
  using update_site_info_heap [of E self w]
  by (auto simp: Site_site_info_def run_defs split: prod.splits sum.splits)

lemma keeps_then_do:
  "keeps_pairs m \<Longrightarrow> (\<And>x. keeps_pairs (f x)) \<Longrightarrow> keeps_pairs (then_do m f)"
  by (auto simp: keeps_pairs_def then_do_def split: prod.splits sum.splits)

lemma keeps_for_each: "(\<And>x. keeps_pairs (f x)) \<Longrightarrow> keeps_pairs (for_each f xs)"
  unfolding keeps_pairs_def using for_each_keeps [of pairs_ok f] by blast

lemma keeps_if: "keeps_pairs a \<Longrightarrow> keeps_pairs b \<Longrightarrow> keeps_pairs (if c then a else b)"
  by simp

lemma keeps_state_if:
  "keeps_pairs a \<Longrightarrow> keeps_pairs b \<Longrightarrow> keeps_pairs (\<lambda>w. if c w then a w else b w)"
  by (simp add: keeps_pairs_def)

lemma keeps_same_heap:
  "(\<And>w. TimeSeries_heap (snd (m w)) = TimeSeries_heap w) \<Longrightarrow> keeps_pairs m"
  by (simp add: keeps_pairs_def pairs_ok_def)

lemma keeps_leaves:
  "keeps_pairs (returns x)" "keeps_pairs (raises e)" "keeps_pairs (lift r)"
  "keeps_pairs (record_call ev)" "keeps_pairs (attr_of v)"
  "keeps_pairs (set_site_info self info)" "keeps_pairs (set_timeseries_list self tsl)"
  "keeps_pairs (set_dataframe self df)" "keeps_pairs (set_sites self d)"
  "keeps_pairs (\<lambda>w. returns (g w) w)" "keeps_pairs (\<lambda>w. attr_of (h w) w)"
  "keeps_pairs (\<lambda>w. set_sites self (k w) w)"
  by (rule keeps_same_heap, simp add: run_defs set_site_info_def set_timeseries_list_def
      set_dataframe_def set_sites_def split: option.splits)+

lemma keeps_TimeSeries:
  "keeps_pairs (TimeSeries_series E self)" "keeps_pairs (TimeSeries_quantity E self)"
  "keeps_pairs (TimeSeries_update_series E self)" "keeps_pairs (dataframe_column E self)"
  "keeps_pairs (TimeSeries_init var cnt meth qcl b e site)"
  "keeps_pairs (timeseries_from_wml_series d s)"
  by (simp_all add: keeps_pairs_def series_keeps quantity_keeps update_series_keeps column_keeps
      TimeSeries_init_keeps timeseries_from_wml_series_def)

lemma keeps_Site_init:
  "keeps_pairs (Site_init code name ident net lat lon src uc)"
  "keeps_pairs (site_from_wml_siteInfo d s)" "keeps_pairs (Source_init wsdl_url use_cache)"
  by (rule keeps_same_heap, simp add: Site_init_def site_from_wml_siteInfo_def Source_init_def Let_def)+

lemma keeps_Site_site_info: "keeps_pairs (Site_site_info E self)" "keeps_pairs (Site_update_site_info E self)"
  by (rule keeps_same_heap, simp add: site_info_heap update_site_info_heap)+

lemma keeps_Site_timeseries_list: "keeps_pairs (Site_timeseries_list E self)"
  unfolding Site_timeseries_list_def Site_update_timeseries_list_def
  by (intro keeps_then_do keeps_for_each keeps_if keeps_state_if keeps_leaves keeps_TimeSeries
      keeps_Site_site_info)

lemma keeps_Site_dataframe: "keeps_pairs (Site_dataframe E self)"
  unfolding Site_dataframe_def Site_update_dataframe_def not_dataframe_def
  apply (intro keeps_then_do keeps_for_each keeps_if keeps_state_if keeps_leaves keeps_TimeSeries
      keeps_Site_site_info keeps_Site_timeseries_list)
  apply (rule keeps_same_heap)
  apply (simp add: run_defs split: option.splits sum.splits)
  done

lemma keeps_Source_sites: "keeps_pairs (Source_sites E self)"
  unfolding Source_sites_def Source_update_sites_def
  by (intro keeps_then_do keeps_for_each keeps_if keeps_state_if keeps_leaves keeps_Site_init)

lemma series_success:
  assumes run: "TimeSeries_series E ts w = (Inr v, w')" and ok: "pairs_ok w"
  shows "v = priv_series (TimeSeries_heap w' ts)
    \<and> priv_series (TimeSeries_heap w' ts) \<noteq> None \<and> priv_quantity (TimeSeries_heap w' ts) \<noteq> None
    \<and> (w' = w \<or> (\<exists>client a b c d resp. GetValuesObject E client a b c d = Inr resp
          \<and> calls w' = calls w @ [Call_GetValuesObject client a b c d]
          \<and> priv_series (TimeSeries_heap w' ts) = Some (response_values resp)
          \<and> priv_quantity (TimeSeries_heap w' ts) = Some (response_quantity resp)))"
proof (cases "len_series (priv_series (TimeSeries_heap w ts)) = 0")
  case True
  with run obtain u where up: "TimeSeries_update_series E ts w = (Inr u, w')"
    and v: "v = priv_series (TimeSeries_heap w' ts)"
    by (auto simp: TimeSeries_series_def run_defs split: prod.splits sum.splits)
  from update_series_Inr [OF up] obtain client a b c d resp where
    g: "GetValuesObject E client a b c d = Inr resp"
    and w': "w' = w\<lparr>calls := calls w @ [Call_GetValuesObject client a b c d],
                       TimeSeries_heap := (TimeSeries_heap w)(ts := (TimeSeries_heap w ts)
                          \<lparr>priv_series := Some (response_values resp),
                           priv_quantity := Some (response_quantity resp)\<rparr>)\<rparr>"
    by blast
  have "calls w' = calls w @ [Call_GetValuesObject client a b c d]"
    "priv_series (TimeSeries_heap w' ts) = Some (response_values resp)"
    "priv_quantity (TimeSeries_heap w' ts) = Some (response_quantity resp)"
    by (simp_all add: w')
  with g v show ?thesis by auto
next
  case False
  with run have same: "w' = w" and v: "v = priv_series (TimeSeries_heap w ts)"
    by (auto simp: TimeSeries_series_def run_defs)
  from False have "priv_series (TimeSeries_heap w ts) \<noteq> None" by (auto simp: len_series_def split: option.splits)
  moreover from ok have "both_or_neither (TimeSeries_heap w ts)" by (simp add: pairs_ok_def)
  with calculation have "priv_quantity (TimeSeries_heap w ts) \<noteq> None"
    unfolding both_or_neither_def by (cases "priv_series (TimeSeries_heap w ts)"; cases "priv_quantity (TimeSeries_heap w ts)"; simp)
  ultimately show ?thesis using same v by simp
qed

lemma quantity_success:
  assumes run: "TimeSeries_quantity E ts w = (Inr v, w')" and ok: "pairs_ok w"
  shows "v = priv_quantity (TimeSeries_heap w' ts)
    \<and> priv_series (TimeSeries_heap w' ts) \<noteq> None \<and> priv_quantity (TimeSeries_heap w' ts) \<noteq> None
    \<and> (w' = w \<or> (\<exists>client a b c d resp. GetValuesObject E client a b c d = Inr resp
          \<and> calls w' = calls w @ [Call_GetValuesObject client a b c d]
          \<and> priv_series (TimeSeries_heap w' ts) = Some (response_values resp)
          \<and> priv_quantity (TimeSeries_heap w' ts) = Some (response_quantity resp)))"
proof (cases "quantity_bool (priv_quantity (TimeSeries_heap w ts))")
  case False
  with run obtain u where up: "TimeSeries_update_series E ts w = (Inr u, w')"
    and v: "v = priv_quantity (TimeSeries_heap w' ts)"
    by (auto simp: TimeSeries_quantity_def run_defs split: prod.splits sum.splits)
  from update_series_Inr [OF up] obtain client a b c d resp where
    g: "GetValuesObject E client a b c d = Inr resp"
    and w': "w' = w\<lparr>calls := calls w @ [Call_GetValuesObject client a b c d],
                       TimeSeries_heap := (TimeSeries_heap w)(ts := (TimeSeries_heap w ts)
                          \<lparr>priv_series := Some (response_values resp),
                           priv_quantity := Some (response_quantity resp)\<rparr>)\<rparr>"
    by blast
  have "calls w' = calls w @ [Call_GetValuesObject client a b c d]"
    "priv_series (TimeSeries_heap w' ts) = Some (response_values resp)"
    "priv_quantity (TimeSeries_heap w' ts) = Some (response_quantity resp)"
    by (simp_all add: w')
  with g v show ?thesis by auto
next
  case True
  with run have same: "w' = w" and v: "v = priv_quantity (TimeSeries_heap w ts)"
    by (auto simp: TimeSeries_quantity_def run_defs)
  from True have "priv_quantity (TimeSeries_heap w ts) \<noteq> None" by (auto simp: quantity_bool_def split: option.splits)
  moreover from ok have "both_or_neither (TimeSeries_heap w ts)" by (simp add: pairs_ok_def)
  with calculation have "priv_series (TimeSeries_heap w ts) \<noteq> None"
    unfolding both_or_neither_def by (cases "priv_series (TimeSeries_heap w ts)"; cases "priv_quantity (TimeSeries_heap w ts)"; simp)
  ultimately show ?thesis using same v by simp
qed

lemma demo_ts_world_eq:
  "demo_ts_world =
     \<lparr>Source_heap = (\<lambda>r. Source_class)(0 := Source_class\<lparr>url := Some ''http://example.org/wml'',
          suds_client_attr := Some (Client ''http://example.org/wml''),
          source_use_cache := Some False\<rparr>),
      Site_heap = (\<lambda>r. Site_class)(1 := Site_class\<lparr>site_code := Some ''01234'',
          site_name := Some ''Demo site'', site_id := Some 1, network := Some ''NWISDV'',
          location := Some (Point (Some (-97)) (Some 30)), source := Some 0,
          site_use_cache := Some False\<rparr>),
      TimeSeries_heap = (\<lambda>r. TimeSeries_class)(2 := TimeSeries_class\<lparr>
          ts_variable := Some demo_variable, ts_count := Some 2, ts_method := None,
          quality_control_level := None, begin_datetime := Some (Datetime 2000 1 1),
          end_datetime := Some (Datetime 2000 1 2), ts_site := Some 1\<rparr>),
      next_ref = 3, calls = []\<rparr>"
  by (simp add: demo_ts_world_def demo_site_world_def TimeSeries_init_def Site_init_def
      Source_init_def empty_world_def Let_def numeral_2_eq_2 numeral_3_eq_3)

lemma TimeSeries_series_fetch:
  assumes "len_series (priv_series (TimeSeries_heap w ts)) = 0"
    and "ts_site (TimeSeries_heap w ts) = Some site"
    and "source (Site_heap w site) = Some src"
    and "suds_client_attr (Source_heap w src) = Some client"
    and "ts_variable (TimeSeries_heap w ts) = Some var"
    and "begin_datetime (TimeSeries_heap w ts) = Some b"
    and "end_datetime (TimeSeries_heap w ts) = Some e"
    and "GetValuesObject E client
           (fmt_colon (network (Site_heap w site)) (site_code (Site_heap w site)))
           (fmt_colon (vocabulary var) (variable_code var))
           (strftime E b ''%Y-%m-%d'') (strftime E e ''%Y-%m-%d'') = Inr resp"
  shows "TimeSeries_series E ts w =
     (Inr (Some (response_values resp)),
      w\<lparr>calls := calls w @ [Call_GetValuesObject client
            (fmt_colon (network (Site_heap w site)) (site_code (Site_heap w site)))
            (fmt_colon (vocabulary var) (variable_code var))
            (strftime E b ''%Y-%m-%d'') (strftime E e ''%Y-%m-%d'')],
        TimeSeries_heap := (TimeSeries_heap w)(ts := (TimeSeries_heap w ts)
           \<lparr>priv_series := Some (response_values resp),
            priv_quantity := Some (response_quantity resp)\<rparr>)\<rparr>)"
  using assms
  by (simp add: TimeSeries_series_def TimeSeries_update_series_def run_defs
      pandas_series_from_wml_TimeSeriesResponseType_def)

lemma concat_replicate_Suc: "concat (replicate (Suc n) xs) = concat (replicate n xs) @ xs"
  by (induction n) simp_all

lemma Source_sites_empty_again:
  assumes "priv_sites (Source_heap w self) = []"
    and "cache_enabled E uc \<longrightarrow> get_cached_sites E self = []"
    and "source_use_cache (Source_heap w self) = uc"
    and "suds_client_attr (Source_heap w self) = Some client"
    and "GetSites E client [] = Inr []"
  shows "fst (Source_sites E self (((\<lambda>w. snd (Source_sites E self w)) ^^ n) w)) = Inr []
    \<and> priv_sites (Source_heap (((\<lambda>w. snd (Source_sites E self w)) ^^ n) w) self) = []
    \<and> source_use_cache (Source_heap (((\<lambda>w. snd (Source_sites E self w)) ^^ n) w) self) = uc
    \<and> suds_client_attr (Source_heap (((\<lambda>w. snd (Source_sites E self w)) ^^ n) w) self) = Some client
    \<and> calls (((\<lambda>w. snd (Source_sites E self w)) ^^ n) w) =
        calls w @ concat (replicate n
          ((if cache_enabled E uc then [Call_get_cached_sites self] else [])
           @ [Call_GetSites client []]
           @ (if cache_enabled E uc then [Call_update_cache_sites [] self] else [])))"
proof (induction n)
  case 0
  have nc: "cache_enabled E (source_use_cache (Source_heap w self)) \<longrightarrow> get_cached_sites E self = []"
    using assms(2,3) by simp
  from Source_sites_fetch [OF assms(1) nc assms(4) assms(5)] assms show ?case
    by (simp add: dict_of_def)
next
  case (Suc n)
  define wn where "wn = ((\<lambda>w. snd (Source_sites E self w)) ^^ n) w"
  from Suc have I: "priv_sites (Source_heap wn self) = []"
    "source_use_cache (Source_heap wn self) = uc"
    "suds_client_attr (Source_heap wn self) = Some client"
    "calls wn = calls w @ concat (replicate n
          ((if cache_enabled E uc then [Call_get_cached_sites self] else [])
           @ [Call_GetSites client []]
           @ (if cache_enabled E uc then [Call_update_cache_sites [] self] else [])))"
    by (simp_all add: wn_def)
  have nc: "cache_enabled E (source_use_cache (Source_heap wn self)) \<longrightarrow> get_cached_sites E self = []"
    using assms(2) I(2) by simp
  note F = Source_sites_fetch [OF I(1) nc I(3) assms(5)]
  define w1 where "w1 = snd (Source_sites E self wn)"
  have J: "priv_sites (Source_heap w1 self) = []"
    "source_use_cache (Source_heap w1 self) = uc"
    "suds_client_attr (Source_heap w1 self) = Some client"
    "calls w1 = calls wn @ ((if cache_enabled E uc then [Call_get_cached_sites self] else [])
           @ [Call_GetSites client []]
           @ (if cache_enabled E uc then [Call_update_cache_sites [] self] else []))"
    using F I(2) by (simp_all add: w1_def dict_of_def)
  have nc1: "cache_enabled E (source_use_cache (Source_heap w1 self)) \<longrightarrow> get_cached_sites E self = []"
    using assms(2) J(2) by simp
  note G = Source_sites_fetch [OF J(1) nc1 J(3) assms(5)]
  have step: "((\<lambda>w. snd (Source_sites E self w)) ^^ Suc n) w = w1"
    by (simp add: w1_def wn_def)
  have rep: "concat (replicate (Suc n)
          ((if cache_enabled E uc then [Call_get_cached_sites self] else [])
           @ [Call_GetSites client []]
           @ (if cache_enabled E uc then [Call_update_cache_sites [] self] else [])))
      = concat (replicate n
          ((if cache_enabled E uc then [Call_get_cached_sites self] else [])
           @ [Call_GetSites client []]
           @ (if cache_enabled E uc then [Call_update_cache_sites [] self] else [])))
        @ ((if cache_enabled E uc then [Call_get_cached_sites self] else [])
           @ [Call_GetSites client []]
           @ (if cache_enabled E uc then [Call_update_cache_sites [] self] else []))"
    by (rule concat_replicate_Suc)
  show ?case
    unfolding step rep using G J I(4) by (simp add: dict_of_def)
qed

lemma iterate_calls:
  assumes step: "\<And>w. I w \<Longrightarrow> I (snd (m w)) \<and> calls (snd (m w)) = calls w @ evs \<and> fst (m w) = r"
    and init: "I w"
  shows "I (((\<lambda>w. snd (m w)) ^^ n) w)
    \<and> calls (((\<lambda>w. snd (m w)) ^^ n) w) = calls w @ concat (replicate n evs)
    \<and> fst (m (((\<lambda>w. snd (m w)) ^^ n) w)) = r"
proof (induction n)
  case 0
  from step [OF init] init show ?case by simp
next
  case (Suc n)
  then have I: "I (((\<lambda>w. snd (m w)) ^^ n) w)"
    and c: "calls (((\<lambda>w. snd (m w)) ^^ n) w) = calls w @ concat (replicate n evs)"
    by simp_all
  from step [OF I] have J: "I (((\<lambda>w. snd (m w)) ^^ Suc n) w)"
    and d: "calls (((\<lambda>w. snd (m w)) ^^ Suc n) w) = calls (((\<lambda>w. snd (m w)) ^^ n) w) @ evs"
    by simp_all
  from step [OF J] J d c show ?case
    by (simp only: concat_replicate_Suc append_assoc)
qed

lemma TimeSeries_series_empty_again:
  assumes "len_series (priv_series (TimeSeries_heap w ts)) = 0"
    and "ts_site (TimeSeries_heap w ts) = Some site"
    and "source (Site_heap w site) = Some src"
    and "suds_client_attr (Source_heap w src) = Some client"
    and "ts_variable (TimeSeries_heap w ts) = Some var"
    and "begin_datetime (TimeSeries_heap w ts) = Some b"
    and "end_datetime (TimeSeries_heap w ts) = Some e"
    and "GetValuesObject E client
           (fmt_colon (network (Site_heap w site)) (site_code (Site_heap w site)))
           (fmt_colon (vocabulary var) (variable_code var))
           (strftime E b ''%Y-%m-%d'') (strftime E e ''%Y-%m-%d'') = Inr resp"
    and "response_values resp = []"
  shows "calls (((\<lambda>w. snd (TimeSeries_series E ts w)) ^^ n) w) =
        calls w @ concat (replicate n [Call_GetValuesObject client
            (fmt_colon (network (Site_heap w site)) (site_code (Site_heap w site)))
            (fmt_colon (vocabulary var) (variable_code var))
            (strftime E b ''%Y-%m-%d'') (strftime E e ''%Y-%m-%d'')])
    \<and> fst (TimeSeries_series E ts (((\<lambda>w. snd (TimeSeries_series E ts w)) ^^ n) w)) = Inr (Some [])"
proof -
  define I where "I = (\<lambda>v::world. len_series (priv_series (TimeSeries_heap v ts)) = 0
     \<and> ts_site (TimeSeries_heap v ts) = Some site \<and> Site_heap v = Site_heap w
     \<and> Source_heap v = Source_heap w \<and> ts_variable (TimeSeries_heap v ts) = Some var
     \<and> begin_datetime (TimeSeries_heap v ts) = Some b \<and> end_datetime (TimeSeries_heap v ts) = Some e)"
  have init: "I w" using assms by (simp add: I_def)
  have step: "I (snd (TimeSeries_series E ts v))
      \<and> calls (snd (TimeSeries_series E ts v)) = calls v @ [Call_GetValuesObject client
            (fmt_colon (network (Site_heap w site)) (site_code (Site_heap w site)))
            (fmt_colon (vocabulary var) (variable_code var))
            (strftime E b ''%Y-%m-%d'') (strftime E e ''%Y-%m-%d'')]
      \<and> fst (TimeSeries_series E ts v) = Inr (Some [])" if "I v" for v
  proof -
    from that assms have a: "len_series (priv_series (TimeSeries_heap v ts)) = 0"
      "ts_site (TimeSeries_heap v ts) = Some site" "source (Site_heap v site) = Some src"
      "suds_client_attr (Source_heap v src) = Some client"
      "ts_variable (TimeSeries_heap v ts) = Some var"
      "begin_datetime (TimeSeries_heap v ts) = Some b" "end_datetime (TimeSeries_heap v ts) = Some e"
      "GetValuesObject E client
           (fmt_colon (network (Site_heap v site)) (site_code (Site_heap v site)))
           (fmt_colon (vocabulary var) (variable_code var))
           (strftime E b ''%Y-%m-%d'') (strftime E e ''%Y-%m-%d'') = Inr resp"
      "Site_heap v = Site_heap w" "Source_heap v = Source_heap w"
      by (simp_all add: I_def)
    show ?thesis
      unfolding TimeSeries_series_fetch [OF a(1-8)]
      using a assms(9) by (simp add: I_def len_series_def)
  qed
  from iterate_calls [of I "TimeSeries_series E ts", OF step init] show ?thesis by simp
qed

lemma Site_timeseries_list_empty_again:
  assumes "priv_timeseries_list (Site_heap w self) = []"
    and "cache_enabled E uc \<longrightarrow> get_cached_timeseries_list E self = []"
    and "site_use_cache (Site_heap w self) = uc"
    and "priv_site_info (Site_heap w self) = Some info"
    and "response_site info = site0 # more_sites"
    and "seriesCatalog site0 = catalog0 # more_catalogs"
    and "catalog_series catalog0 = []"
  shows "calls (((\<lambda>w. snd (Site_timeseries_list E self w)) ^^ n) w) =
        calls w @ concat (replicate n
          (if cache_enabled E uc
           then [Call_get_cached_timeseries_list self, Call_update_cache_timeseries self] else []))
    \<and> fst (Site_timeseries_list E self (((\<lambda>w. snd (Site_timeseries_list E self w)) ^^ n) w)) = Inr []"
proof -
  define I where "I = (\<lambda>v::world. priv_timeseries_list (Site_heap v self) = []
     \<and> site_use_cache (Site_heap v self) = uc \<and> priv_site_info (Site_heap v self) = Some info)"
  have init: "I w" using assms by (simp add: I_def)
  have step: "I (snd (Site_timeseries_list E self v))
      \<and> calls (snd (Site_timeseries_list E self v)) = calls v @
          (if cache_enabled E uc
           then [Call_get_cached_timeseries_list self, Call_update_cache_timeseries self] else [])
      \<and> fst (Site_timeseries_list E self v) = Inr []" if "I v" for v
  proof -
    from that have a: "priv_timeseries_list (Site_heap v self) = []"
      "site_use_cache (Site_heap v self) = uc" "priv_site_info (Site_heap v self) = Some info"
      by (simp_all add: I_def)
    have nc: "cache_enabled E (site_use_cache (Site_heap v self)) \<longrightarrow>
                    get_cached_timeseries_list E self = []"
      using assms(2) a(2) by simp
    from Site_timeseries_list_build [OF a(1) nc a(3) assms(5) assms(6)] a assms(7)
    show ?thesis by (simp add: I_def)
  qed
  from iterate_calls [of I "Site_timeseries_list E self", OF step init] show ?thesis by simp
qed

lemma empty_catalog_world_eq:
  "empty_catalog_world =
     \<lparr>Source_heap = (\<lambda>r. Source_class)(0 := Source_class\<lparr>url := Some ''http://example.org/wml'',
          suds_client_attr := Some (Client ''http://example.org/wml''),
          source_use_cache := Some False\<rparr>),
      Site_heap = (\<lambda>r. Site_class)(1 := Site_class\<lparr>site_code := Some ''01234'',
          site_name := Some ''Demo site'', site_id := Some 1, network := Some ''NWISDV'',
          location := Some (Point (Some (-97)) (Some 30)), source := Some 0,
          site_use_cache := Some False, priv_site_info := Some empty_catalog_info\<rparr>),
      TimeSeries_heap = (\<lambda>r. TimeSeries_class)(2 := TimeSeries_class\<lparr>
          ts_variable := Some demo_variable, ts_count := Some 2, ts_method := None,
          quality_control_level := None, begin_datetime := Some (Datetime 2000 1 1),
          end_datetime := Some (Datetime 2000 1 2), ts_site := Some 1\<rparr>),
      next_ref = 3,
      calls = [Call_GetSiteInfoObject (Client ''http://example.org/wml'') ''NWISDV:01234'']\<rparr>"
  by (simp add: empty_catalog_world_def demo_ts_world_eq Site_site_info_def
      Site_update_site_info_def set_site_info_def item0_def run_defs Site_class_def
      Source_class_def empty_env_def demo_env_def empty_catalog_info_def fmt_colon_def py_str_def)





















lemma remote_calls_append [simp]:
  "remote_calls (w\<lparr>calls := calls w @ evs\<rparr>) = remote_calls w + length (filter is_remote evs)"
  by (simp add: remote_calls_def)

lemma remote_calls_cong: "calls w' = calls w \<Longrightarrow> remote_calls w' = remote_calls w"
  by (simp add: remote_calls_def)





























section \<open>Claims\<close>

subsection \<open>Source.sites and the Cache Store\<close>

text \<open>
  C4. For a Source with caching enabled and a Cache Store configured, whose site mapping
  is not yet populated: when the store retrieves a non-empty mapping, \<^verbatim>\<open>sites\<close>
  returns exactly that mapping, keeps it as \<^verbatim>\<open>_sites\<close>, and the only call made is the
  query of the store; \<^verbatim>\<open>GetSites\<close> is not invoked.
\<close>

theorem sites_cache_precedence:
  assumes "cache_enabled E (source_use_cache (Source_heap w self))"
    and "get_cached_sites E self \<noteq> []"
    and "priv_sites (Source_heap w self) = []"
  shows "fst (Source_sites E self w) = Inr (get_cached_sites E self)
    \<and> priv_sites (Source_heap (snd (Source_sites E self w)) self) = get_cached_sites E self
    \<and> calls (snd (Source_sites E self w)) = calls w @ [Call_get_cached_sites self]"
  using assms
  by (simp add: Source_sites_def Source_update_sites_def set_sites_def run_defs)

text \<open>A store that retrieves one cached Site for a freshly constructed Source.\<close>

theorem sites_cache_precedence_witness:
  "fst (Source_sites (demo_env\<lparr>get_cached_sites := (\<lambda>r. [(Some ''01234'', 1)])\<rparr>) 0
         (snd (Site_init (Some ''01234'') None None (Some ''NWISDV'') None None (Some 0) True
           (snd (Source_init ''http://example.org/wml'' True empty_world)))))
     = Inr [(Some ''01234'', 1)]
   \<and> calls (snd (Source_sites (demo_env\<lparr>get_cached_sites := (\<lambda>r. [(Some ''01234'', 1)])\<rparr>) 0
         (snd (Site_init (Some ''01234'') None None (Some ''NWISDV'') None None (Some 0) True
           (snd (Source_init ''http://example.org/wml'' True empty_world))))))
     = [Call_get_cached_sites 0]"
  using sites_cache_precedence [of "demo_env\<lparr>get_cached_sites := (\<lambda>r. [(Some ''01234'', 1)])\<rparr>"
      "snd (Site_init (Some ''01234'') None None (Some ''NWISDV'') None None (Some 0) True
           (snd (Source_init ''http://example.org/wml'' True empty_world)))" 0]
  by (simp add: demo_env_def empty_world_def Source_init_def Site_init_def Source_class_def
      cache_enabled_def Let_def)

text \<open>
  C7. For a Source with caching enabled whose Cache Store retrieves nothing, one access
  to \<^verbatim>\<open>sites\<close> queries the store, calls \<^verbatim>\<open>GetSites('')\<close>, and then writes the full list
  of the Sites built from the answer (one per descriptor, in order) to the store, before
  it returns the mapping.
\<close>

theorem sites_cache_population:
  assumes "cache_enabled E (source_use_cache (Source_heap w self))"
    and "get_cached_sites E self = []"
    and "priv_sites (Source_heap w self) = []"
    and "suds_client_attr (Source_heap w self) = Some client"
    and "GetSites E client [] = Inr ds"
  shows "calls (snd (Source_sites E self w)) =
           calls w @ [Call_get_cached_sites self, Call_GetSites client [],
                      Call_update_cache_sites [next_ref w ..< next_ref w + length ds] self]
    \<and> map (\<lambda>site. site_code (Site_heap (snd (Source_sites E self w)) site))
          [next_ref w ..< next_ref w + length ds] = map wml_code ds
    \<and> map (\<lambda>site. network (Site_heap (snd (Source_sites E self w)) site))
          [next_ref w ..< next_ref w + length ds] = map wml_network ds
    \<and> fst (Source_sites E self w)
         = Inr (dict_of (zip (map wml_code ds) [next_ref w ..< next_ref w + length ds]))"
proof -
  from assms(1,2) have nocache:
    "cache_enabled E (source_use_cache (Source_heap w self)) \<longrightarrow> get_cached_sites E self = []"
    by simp
  note F = Source_sites_fetch [OF assms(3) nocache assms(4) assms(5)]
  have codes: "map (\<lambda>site. site_code (Site_heap (snd (Source_sites E self w)) site))
          [next_ref w ..< next_ref w + length ds] = map wml_code ds"
    using F by (auto intro!: nth_equalityI simp: Site_class_def)
  have nets: "map (\<lambda>site. network (Site_heap (snd (Source_sites E self w)) site))
          [next_ref w ..< next_ref w + length ds] = map wml_network ds"
    using F by (auto intro!: nth_equalityI simp: Site_class_def)
  from F assms(1) codes nets show ?thesis by simp
qed

text \<open>A freshly constructed Source with caching enabled and an empty store.\<close>

theorem sites_cache_population_witness:
  "calls (snd (Source_sites demo_env 0 (snd (Source_init ''http://example.org/wml'' True empty_world))))
     = [Call_get_cached_sites 0, Call_GetSites (Client ''http://example.org/wml'') [],
        Call_update_cache_sites [1] 0]
   \<and> fst (Source_sites demo_env 0 (snd (Source_init ''http://example.org/wml'' True empty_world)))
     = Inr [(Some ''01234'', 1)]"
  using sites_cache_population [of demo_env
      "snd (Source_init ''http://example.org/wml'' True empty_world)" 0
      "Client ''http://example.org/wml''" "[demo_siteInfo]"]
  by (simp add: demo_env_def empty_world_def Source_init_def Source_class_def
      cache_enabled_def Let_def dict_of_def demo_siteInfo_def)

text \<open>
  C8. A Source constructed with caching disabled, whose gateway answers \<^verbatim>\<open>GetSites\<close> with
  the single descriptor of network \<^verbatim>\<open>NWISDV\<close> and code \<^verbatim>\<open>01234\<close>: after \<^verbatim>\<open>sites\<close>, the
  mapping has exactly the key \<^verbatim>\<open>01234\<close>, mapped to a Site whose network is
  \<^verbatim>\<open>NWISDV\<close> and whose source is that Source.
\<close>

theorem sites_example:
  assumes "\<not> cache_enabled E (Some use_cache)"
    and "GetSites E (Client wsdl_url) [] = Inr [d]"
    and "wml_network d = Some ''NWISDV''"
    and "wml_code d = Some ''01234''"
  shows "fst (Source_sites E (next_ref w) (snd (Source_init wsdl_url use_cache w)))
           = Inr [(Some ''01234'', Suc (next_ref w))]
    \<and> network (Site_heap (snd (Source_sites E (next_ref w) (snd (Source_init wsdl_url use_cache w))))
         (Suc (next_ref w))) = Some ''NWISDV''
    \<and> source (Site_heap (snd (Source_sites E (next_ref w) (snd (Source_init wsdl_url use_cache w))))
         (Suc (next_ref w))) = Some (next_ref w)
    \<and> url (Source_heap (snd (Source_sites E (next_ref w) (snd (Source_init wsdl_url use_cache w))))
         (next_ref w)) = Some wsdl_url"
proof -
  define w1 where "w1 = snd (Source_init wsdl_url use_cache w)"
  have w1: "priv_sites (Source_heap w1 (next_ref w)) = []"
    "source_use_cache (Source_heap w1 (next_ref w)) = Some use_cache"
    "suds_client_attr (Source_heap w1 (next_ref w)) = Some (Client wsdl_url)"
    "next_ref w1 = Suc (next_ref w)"
    by (simp_all add: w1_def Source_init_def Source_class_def Let_def)
  have nocache: "cache_enabled E (source_use_cache (Source_heap w1 (next_ref w)))
      \<longrightarrow> get_cached_sites E (next_ref w) = []"
    using assms(1) w1 by simp
  note F = Source_sites_fetch [OF w1(1) nocache w1(3) assms(2), unfolded w1(4)]
  from F have site: "Site_heap (snd (Source_sites E (next_ref w) w1)) (Suc (next_ref w)) =
           Site_class\<lparr>site_code := wml_code d, site_name := wml_name d,
             site_id := wml_id d, network := wml_network d,
             location := Some (Point (wml_longitude d) (wml_latitude d)),
             source := Some (next_ref w), site_use_cache := Some True\<rparr>"
    by simp
  have u: "url (Source_heap (snd (Source_sites E (next_ref w) w1)) (next_ref w)) = Some wsdl_url"
    using assms(1,2)
    by (simp add: w1_def Source_sites_def Source_update_sites_def set_sites_def run_defs
        Source_init_def Source_class_def Let_def site_from_wml_siteInfo_def Site_init_def)
  from F site u assms(3,4) show ?thesis
    unfolding w1_def [symmetric] by (simp add: dict_of_def Site_class_def)
qed

text \<open>The example of the specification, at the URL it names.\<close>

theorem sites_example_witness:
  "fst (Source_sites demo_env 0 (snd (Source_init ''http://example.org/wml'' False empty_world)))
     = Inr [(Some ''01234'', 1)]
   \<and> network (Site_heap (snd (Source_sites demo_env 0
         (snd (Source_init ''http://example.org/wml'' False empty_world)))) 1) = Some ''NWISDV''
   \<and> source (Site_heap (snd (Source_sites demo_env 0
         (snd (Source_init ''http://example.org/wml'' False empty_world)))) 1) = Some 0"
  using sites_example [of demo_env False "''http://example.org/wml''" demo_siteInfo empty_world]
  by (simp add: demo_env_def empty_world_def cache_enabled_def demo_siteInfo_def)

subsection \<open>Source.__len__\<close>

text \<open>
  C9. \<^verbatim>\<open>Source.__len__\<close> evaluates the length of the site mapping and returns no value,
  so the built-in \<^verbatim>\<open>len\<close> of any Source, however many sites it holds, raises
  \<^verbatim>\<open>TypeError\<close> and leaves the store as it was.
\<close>

theorem Source_len_raises_TypeError:
  "Source_len self w = (Inr PyNone, w) \<and> builtin_len (Source_len self) w = (Inl TypeError, w)"
  by (simp add: builtin_len_def Source_len_def then_do_def raises_def)

subsection \<open>Construction\<close>


subsection \<open>The shape check of the site-detail payload\<close>

text \<open>
  C1. The claim is that a site-detail payload with more than one site entry, or with one
  site entry of more than one series catalog, makes \<^verbatim>\<open>timeseries_list\<close> (or
  \<^verbatim>\<open>site_info\<close>) raise the unrecoverable-shape error and leaves both \<^verbatim>\<open>_site_info\<close>
  and \<^verbatim>\<open>_timeseries_list\<close> unset. The code raises \<^verbatim>\<open>NotImplementedError\<close> and leaves
  \<^verbatim>\<open>_timeseries_list\<close> empty, but it has stored the rejected payload in
  \<^verbatim>\<open>_site_info\<close> before the check: the next access of \<^verbatim>\<open>site_info\<close> returns that
  payload without any error or call.
\<close>

theorem unsupported_shape_keeps_site_info:
  assumes "source (Site_heap w self) = Some src"
    and "suds_client_attr (Source_heap w src) = Some client"
    and "GetSiteInfoObject E client
           (fmt_colon (network (Site_heap w self)) (site_code (Site_heap w self))) = Inr info"
    and "unsupported_shape info"
    and "priv_site_info (Site_heap w self) = None"
    and "priv_timeseries_list (Site_heap w self) = []"
    and "\<not> cache_enabled E (site_use_cache (Site_heap w self))"
  shows "fst (Site_timeseries_list E self w) = Inl NotImplementedError
    \<and> priv_timeseries_list (Site_heap (snd (Site_timeseries_list E self w)) self) = []
    \<and> priv_site_info (Site_heap (snd (Site_timeseries_list E self w)) self) = Some info
    \<and> Site_site_info E self (snd (Site_timeseries_list E self w))
        = (Inr (Some info), snd (Site_timeseries_list E self w))
    \<and> fst (Site_site_info E self w) = Inl NotImplementedError
    \<and> priv_site_info (Site_heap (snd (Site_site_info E self w)) self) = Some info"
proof -
  note U = Site_update_site_info_run [OF assms(1,2,3), unfolded unsupported_shape_check [OF assms(4)]]
  have si: "Site_site_info E self w = (Inl NotImplementedError,
      w\<lparr>Site_heap := (Site_heap w)(self := (Site_heap w self)\<lparr>priv_site_info := Some info\<rparr>),
        calls := calls w @ [Call_GetSiteInfoObject client
           (fmt_colon (network (Site_heap w self)) (site_code (Site_heap w self)))]\<rparr>)"
    using assms(5) U by (simp add: Site_site_info_def run_defs)
  have tl: "Site_timeseries_list E self w = (Inl NotImplementedError,
      w\<lparr>Site_heap := (Site_heap w)(self := (Site_heap w self)\<lparr>priv_site_info := Some info\<rparr>),
        calls := calls w @ [Call_GetSiteInfoObject client
           (fmt_colon (network (Site_heap w self)) (site_code (Site_heap w self)))]\<rparr>)"
    using assms(6,7) si
    by (simp add: Site_timeseries_list_def Site_update_timeseries_list_def run_defs)
  show ?thesis
    unfolding tl si using assms(6) by (simp add: Site_site_info_def run_defs)
qed

text \<open>
  A payload with two site entries: the first access of \<^verbatim>\<open>timeseries_list\<close> raises, the
  payload stays in \<^verbatim>\<open>_site_info\<close>, and the second access builds a list from the first
  site entry's first catalog.
\<close>

theorem unsupported_shape_keeps_site_info_witness:
  "fst (Site_timeseries_list (demo_env\<lparr>GetSiteInfoObject := (\<lambda>c a. Inr two_sites_info)\<rparr>) 1
         (snd (Site_init (Some ''01234'') None None (Some ''NWISDV'') None None (Some 0) False
           (snd (Source_init ''http://example.org/wml'' False empty_world)))))
     = Inl NotImplementedError
   \<and> priv_site_info (Site_heap (snd (Site_timeseries_list
         (demo_env\<lparr>GetSiteInfoObject := (\<lambda>c a. Inr two_sites_info)\<rparr>) 1
         (snd (Site_init (Some ''01234'') None None (Some ''NWISDV'') None None (Some 0) False
           (snd (Source_init ''http://example.org/wml'' False empty_world)))))) 1)
     = Some two_sites_info
   \<and> fst (Site_timeseries_list (demo_env\<lparr>GetSiteInfoObject := (\<lambda>c a. Inr two_sites_info)\<rparr>) 1
       (snd (Site_timeseries_list (demo_env\<lparr>GetSiteInfoObject := (\<lambda>c a. Inr two_sites_info)\<rparr>) 1
         (snd (Site_init (Some ''01234'') None None (Some ''NWISDV'') None None (Some 0) False
           (snd (Source_init ''http://example.org/wml'' False empty_world)))))))
     = Inr [2]"
proof -
  define E where "E = demo_env\<lparr>GetSiteInfoObject := (\<lambda>c a. Inr two_sites_info)\<rparr>"
  define w where "w = snd (Site_init (Some ''01234'') None None (Some ''NWISDV'') None None (Some 0) False
           (snd (Source_init ''http://example.org/wml'' False empty_world)))"
  have w: "source (Site_heap w 1) = Some 0"
    "suds_client_attr (Source_heap w 0) = Some (Client ''http://example.org/wml'')"
    "priv_site_info (Site_heap w 1) = None" "priv_timeseries_list (Site_heap w 1) = []"
    "site_use_cache (Site_heap w 1) = Some False" "next_ref w = 2"
    by (simp_all add: w_def Site_init_def Source_init_def empty_world_def Site_class_def
        Source_class_def Let_def)
  have g: "GetSiteInfoObject E (Client ''http://example.org/wml'')
           (fmt_colon (network (Site_heap w 1)) (site_code (Site_heap w 1))) = Inr two_sites_info"
    by (simp add: E_def)
  have u: "unsupported_shape two_sites_info"
    by (simp add: unsupported_shape_def two_sites_info_def)
  have c: "\<not> cache_enabled E (site_use_cache (Site_heap w 1))"
    using w by (simp add: cache_enabled_def)
  note T = unsupported_shape_keeps_site_info [OF w(1) w(2) g u w(3) w(4) c]
  define w' where "w' = snd (Site_timeseries_list E 1 w)"
  have w': "priv_timeseries_list (Site_heap w' 1) = []" "priv_site_info (Site_heap w' 1) = Some two_sites_info"
    using T by (simp_all add: w'_def)
  have tsl: "Site_timeseries_list E 1 w = (Inl NotImplementedError,
      w\<lparr>Site_heap := (Site_heap w)(1 := (Site_heap w 1)\<lparr>priv_site_info := Some two_sites_info\<rparr>),
        calls := calls w @ [Call_GetSiteInfoObject (Client ''http://example.org/wml'')
           (fmt_colon (network (Site_heap w 1)) (site_code (Site_heap w 1)))]\<rparr>)"
    using w c g
    by (simp add: Site_timeseries_list_def Site_update_timeseries_list_def Site_site_info_def
        Site_update_site_info_def set_site_info_def run_defs two_sites_info_def)
  have second: "fst (Site_timeseries_list E 1 w') = Inr [2]"
    unfolding w'_def tsl using w c
    by (simp add: Site_timeseries_list_def Site_update_timeseries_list_def Site_site_info_def
        set_timeseries_list_def run_defs two_sites_info_def item0_def
        timeseries_from_wml_series_run)
  from T second show ?thesis
    unfolding w'_def E_def w_def by simp
qed

subsection \<open>Repeated access of a lazy accessor\<close>




subsection \<open>TimeSeries.series and TimeSeries.quantity\<close>

text \<open>
  C3. \<^verbatim>\<open>_series\<close> and \<^verbatim>\<open>_quantity\<close> are assigned together. In the store in which
  nothing is constructed, and after every constructor and every accessor of the model run
  from a store where it holds, every TimeSeries has either both fields at their class
  defaults or both assigned. After a successful access of \<^verbatim>\<open>series\<close> or \<^verbatim>\<open>quantity\<close>
  both fields are assigned; the access either changed nothing or made exactly one
  \<^verbatim>\<open>GetValuesObject\<close> call, whose answer gave both the value series and the quantity.
\<close>

theorem atomic_pair_population:
  assumes "pairs_ok w"
  shows "pairs_ok empty_world
    \<and> pairs_ok (snd (Source_init wsdl_url use_cache w))
    \<and> pairs_ok (snd (Site_init code name ident net lat lon src uc w))
    \<and> pairs_ok (snd (TimeSeries_init var cnt meth qcl b e site0 w))
    \<and> pairs_ok (snd (Source_sites E source_ref w))
    \<and> pairs_ok (snd (Site_site_info E site_ref w))
    \<and> pairs_ok (snd (Site_timeseries_list E site_ref w))
    \<and> pairs_ok (snd (Site_dataframe E site_ref w))
    \<and> pairs_ok (snd (TimeSeries_series E ts w))
    \<and> pairs_ok (snd (TimeSeries_quantity E ts w))
    \<and> (\<forall>v. fst (TimeSeries_series E ts w) = Inr v \<longrightarrow>
          v = priv_series (TimeSeries_heap (snd (TimeSeries_series E ts w)) ts)
          \<and> priv_series (TimeSeries_heap (snd (TimeSeries_series E ts w)) ts) \<noteq> None
          \<and> priv_quantity (TimeSeries_heap (snd (TimeSeries_series E ts w)) ts) \<noteq> None
          \<and> (snd (TimeSeries_series E ts w) = w
             \<or> (\<exists>client a b c d resp. GetValuesObject E client a b c d = Inr resp
                  \<and> calls (snd (TimeSeries_series E ts w))
                      = calls w @ [Call_GetValuesObject client a b c d]
                  \<and> priv_series (TimeSeries_heap (snd (TimeSeries_series E ts w)) ts)
                      = Some (response_values resp)
                  \<and> priv_quantity (TimeSeries_heap (snd (TimeSeries_series E ts w)) ts)
                      = Some (response_quantity resp))))
    \<and> (\<forall>v. fst (TimeSeries_quantity E ts w) = Inr v \<longrightarrow>
          v = priv_quantity (TimeSeries_heap (snd (TimeSeries_quantity E ts w)) ts)
          \<and> priv_series (TimeSeries_heap (snd (TimeSeries_quantity E ts w)) ts) \<noteq> None
          \<and> priv_quantity (TimeSeries_heap (snd (TimeSeries_quantity E ts w)) ts) \<noteq> None
          \<and> (snd (TimeSeries_quantity E ts w) = w
             \<or> (\<exists>client a b c d resp. GetValuesObject E client a b c d = Inr resp
                  \<and> calls (snd (TimeSeries_quantity E ts w))
                      = calls w @ [Call_GetValuesObject client a b c d]
                  \<and> priv_series (TimeSeries_heap (snd (TimeSeries_quantity E ts w)) ts)
                      = Some (response_values resp)
                  \<and> priv_quantity (TimeSeries_heap (snd (TimeSeries_quantity E ts w)) ts)
                      = Some (response_quantity resp))))"
proof -
  have e: "pairs_ok empty_world"
    by (simp add: pairs_ok_def empty_world_def both_or_neither_def TimeSeries_class_def)
  have k: "pairs_ok (snd (Source_init wsdl_url use_cache w))"
    "pairs_ok (snd (Site_init code name ident net lat lon src uc w))"
    "pairs_ok (snd (TimeSeries_init var cnt meth qcl b e site0 w))"
    "pairs_ok (snd (Source_sites E source_ref w))"
    "pairs_ok (snd (Site_site_info E site_ref w))"
    "pairs_ok (snd (Site_timeseries_list E site_ref w))"
    "pairs_ok (snd (Site_dataframe E site_ref w))"
    "pairs_ok (snd (TimeSeries_series E ts w))"
    "pairs_ok (snd (TimeSeries_quantity E ts w))"
    using assms keeps_Site_init(3) [of wsdl_url use_cache]
      keeps_Site_init(1) [of code name ident net lat lon src uc]
      keeps_TimeSeries(5) [of var cnt meth qcl b e site0] keeps_Source_sites [of E source_ref]
      keeps_Site_site_info(1) [of E site_ref] keeps_Site_timeseries_list [of E site_ref]
      keeps_Site_dataframe [of E site_ref] keeps_TimeSeries(1,2) [of E ts]
    by (simp_all add: keeps_pairs_def)
  have s: "\<forall>v. fst (TimeSeries_series E ts w) = Inr v \<longrightarrow>
          v = priv_series (TimeSeries_heap (snd (TimeSeries_series E ts w)) ts)
          \<and> priv_series (TimeSeries_heap (snd (TimeSeries_series E ts w)) ts) \<noteq> None
          \<and> priv_quantity (TimeSeries_heap (snd (TimeSeries_series E ts w)) ts) \<noteq> None
          \<and> (snd (TimeSeries_series E ts w) = w
             \<or> (\<exists>client a b c d resp. GetValuesObject E client a b c d = Inr resp
                  \<and> calls (snd (TimeSeries_series E ts w))
                      = calls w @ [Call_GetValuesObject client a b c d]
                  \<and> priv_series (TimeSeries_heap (snd (TimeSeries_series E ts w)) ts)
                      = Some (response_values resp)
                  \<and> priv_quantity (TimeSeries_heap (snd (TimeSeries_series E ts w)) ts)
                      = Some (response_quantity resp)))"
  proof (intro allI impI)
    fix v assume "fst (TimeSeries_series E ts w) = Inr v"
    then have "TimeSeries_series E ts w = (Inr v, snd (TimeSeries_series E ts w))"
      by (metis prod.collapse)
    from series_success [OF this assms]
    show "v = priv_series (TimeSeries_heap (snd (TimeSeries_series E ts w)) ts)
          \<and> priv_series (TimeSeries_heap (snd (TimeSeries_series E ts w)) ts) \<noteq> None
          \<and> priv_quantity (TimeSeries_heap (snd (TimeSeries_series E ts w)) ts) \<noteq> None
          \<and> (snd (TimeSeries_series E ts w) = w
             \<or> (\<exists>client a b c d resp. GetValuesObject E client a b c d = Inr resp
                  \<and> calls (snd (TimeSeries_series E ts w))
                      = calls w @ [Call_GetValuesObject client a b c d]
                  \<and> priv_series (TimeSeries_heap (snd (TimeSeries_series E ts w)) ts)
                      = Some (response_values resp)
                  \<and> priv_quantity (TimeSeries_heap (snd (TimeSeries_series E ts w)) ts)
                      = Some (response_quantity resp)))" .
  qed
  have q: "\<forall>v. fst (TimeSeries_quantity E ts w) = Inr v \<longrightarrow>
          v = priv_quantity (TimeSeries_heap (snd (TimeSeries_quantity E ts w)) ts)
          \<and> priv_series (TimeSeries_heap (snd (TimeSeries_quantity E ts w)) ts) \<noteq> None
          \<and> priv_quantity (TimeSeries_heap (snd (TimeSeries_quantity E ts w)) ts) \<noteq> None
          \<and> (snd (TimeSeries_quantity E ts w) = w
             \<or> (\<exists>client a b c d resp. GetValuesObject E client a b c d = Inr resp
                  \<and> calls (snd (TimeSeries_quantity E ts w))
                      = calls w @ [Call_GetValuesObject client a b c d]
                  \<and> priv_series (TimeSeries_heap (snd (TimeSeries_quantity E ts w)) ts)
                      = Some (response_values resp)
                  \<and> priv_quantity (TimeSeries_heap (snd (TimeSeries_quantity E ts w)) ts)
                      = Some (response_quantity resp)))"
  proof (intro allI impI)
    fix v assume "fst (TimeSeries_quantity E ts w) = Inr v"
    then have "TimeSeries_quantity E ts w = (Inr v, snd (TimeSeries_quantity E ts w))"
      by (metis prod.collapse)
    from quantity_success [OF this assms]
    show "v = priv_quantity (TimeSeries_heap (snd (TimeSeries_quantity E ts w)) ts)
          \<and> priv_series (TimeSeries_heap (snd (TimeSeries_quantity E ts w)) ts) \<noteq> None
          \<and> priv_quantity (TimeSeries_heap (snd (TimeSeries_quantity E ts w)) ts) \<noteq> None
          \<and> (snd (TimeSeries_quantity E ts w) = w
             \<or> (\<exists>client a b c d resp. GetValuesObject E client a b c d = Inr resp
                  \<and> calls (snd (TimeSeries_quantity E ts w))
                      = calls w @ [Call_GetValuesObject client a b c d]
                  \<and> priv_series (TimeSeries_heap (snd (TimeSeries_quantity E ts w)) ts)
                      = Some (response_values resp)
                  \<and> priv_quantity (TimeSeries_heap (snd (TimeSeries_quantity E ts w)) ts)
                      = Some (response_quantity resp)))" .
  qed
  from e k s q show ?thesis by blast
qed

text \<open>The sample TimeSeries, accessed through \<^verbatim>\<open>quantity\<close>.\<close>

theorem atomic_pair_population_witness:
  "pairs_ok demo_ts_world
   \<and> fst (TimeSeries_quantity demo_env 2 demo_ts_world) = Inr (Some ''cfs'')
   \<and> priv_series (TimeSeries_heap (snd (TimeSeries_quantity demo_env 2 demo_ts_world)) 2)
       = Some [(''2000-01-01'', 1), (''2000-01-02'', 2)]
   \<and> priv_quantity (TimeSeries_heap (snd (TimeSeries_quantity demo_env 2 demo_ts_world)) 2)
       = Some ''cfs''
   \<and> pairs_ok (snd (TimeSeries_quantity demo_env 2 demo_ts_world))"
proof -
  have ok: "pairs_ok demo_ts_world"
    by (simp add: demo_ts_world_eq pairs_ok_def both_or_neither_def TimeSeries_class_def)
  have run: "TimeSeries_quantity demo_env 2 demo_ts_world =
    (Inr (Some ''cfs''),
     demo_ts_world\<lparr>calls := [Call_GetValuesObject (Client ''http://example.org/wml'')
          ''NWISDV:01234'' ''NWISDV:00060'' ''2000-01-01'' ''2000-01-01''],
        TimeSeries_heap := (TimeSeries_heap demo_ts_world)(2 := (TimeSeries_heap demo_ts_world 2)
          \<lparr>priv_series := Some [(''2000-01-01'', 1), (''2000-01-02'', 2)],
           priv_quantity := Some ''cfs''\<rparr>)\<rparr>)"
    by (simp add: demo_ts_world_eq TimeSeries_quantity_def TimeSeries_update_series_def run_defs
        quantity_bool_def TimeSeries_class_def Site_class_def Source_class_def demo_env_def
        demo_variable_def demo_values_def fmt_colon_def py_str_def
        pandas_series_from_wml_TimeSeriesResponseType_def)
  from atomic_pair_population [OF ok, where E = demo_env and ts = 2] ok run
  show ?thesis by simp
qed

subsection \<open>Site.dataframe on a fresh Site\<close>

text \<open>
  C5. A freshly constructed Site without caching, whose site-detail payload has one site
  entry with one series catalog and whose series can all be fetched: \<^verbatim>\<open>dataframe\<close>
  first populates \<^verbatim>\<open>_site_info\<close> (one \<^verbatim>\<open>GetSiteInfoObject\<close> call, list and table still
  unset), then \<^verbatim>\<open>_timeseries_list\<close> (no further call, table still unset), then fetches
  the values of each series of the catalog in order and builds the table; the calls are
  exactly one site-detail call followed by one get-values call per series.
\<close>

theorem dataframe_dependency_order:
  assumes nocache: "\<not> cache_enabled E (Some use_cache)"
    and client: "suds_client_attr (Source_heap w src) = Some client"
    and detail: "GetSiteInfoObject E client (fmt_colon net code) = Inr info"
    and sites: "response_site info = [site0]"
    and catalogs: "seriesCatalog site0 = [catalog0]"
    and ok: "\<forall>d \<in> set (catalog_series catalog0). series_fetchable E client (fmt_colon net code) d"
    and fresh: "w1 = snd (Site_init code name ident net lat lon (Some src) use_cache w)"
    and first: "Site_update_site_info E (next_ref w) w1 = (res_a, wa)"
    and second: "Site_timeseries_list E (next_ref w) wa = (res_b, wb)"
    and third: "for_each (dataframe_column E) (priv_timeseries_list (Site_heap wb (next_ref w))) wb
                  = (res_c, wc)"
    and whole: "Site_dataframe E (next_ref w) w1 = (res, wd)"
  shows "res_a = Inr ()
    \<and> priv_site_info (Site_heap wa (next_ref w)) = Some info
    \<and> priv_timeseries_list (Site_heap wa (next_ref w)) = []
    \<and> priv_dataframe (Site_heap wa (next_ref w)) = None
    \<and> calls wa = calls w @ [Call_GetSiteInfoObject client (fmt_colon net code)]
    \<and> res_b = Inr [Suc (next_ref w) ..< Suc (next_ref w) + length (catalog_series catalog0)]
    \<and> priv_timeseries_list (Site_heap wb (next_ref w))
         = [Suc (next_ref w) ..< Suc (next_ref w) + length (catalog_series catalog0)]
    \<and> priv_dataframe (Site_heap wb (next_ref w)) = None
    \<and> calls wb = calls wa
    \<and> res_c = Inr (map (column_of E client (fmt_colon net code)) (catalog_series catalog0))
    \<and> calls wc = calls wb @ map (values_request E client (fmt_colon net code)) (catalog_series catalog0)
    \<and> res = Inr (Some (DataFrame (dict_of
               (map (column_of E client (fmt_colon net code)) (catalog_series catalog0)))))
    \<and> snd (set_dataframe (next_ref w) (DataFrame (dict_of
               (map (column_of E client (fmt_colon net code)) (catalog_series catalog0)))) wc) = wd
    \<and> calls wd = calls w @ Call_GetSiteInfoObject client (fmt_colon net code)
               # map (values_request E client (fmt_colon net code)) (catalog_series catalog0)"
proof -
  define self where "self = next_ref w"
  define ds where "ds = catalog_series catalog0"
  define arg where "arg = fmt_colon net code"
  have w1: "Site_heap w1 self = Site_class\<lparr>site_code := code, site_name := name, site_id := ident,
                  network := net, location := Some (Point lon lat),
                  source := Some src, site_use_cache := Some use_cache\<rparr>"
    "Source_heap w1 = Source_heap w" "next_ref w1 = Suc self" "calls w1 = calls w"
    by (simp_all add: fresh self_def Site_init_def Let_def)
  have s1: "source (Site_heap w1 self) = Some src" "network (Site_heap w1 self) = net"
    "site_code (Site_heap w1 self) = code" "priv_timeseries_list (Site_heap w1 self) = []"
    "priv_dataframe (Site_heap w1 self) = None" "site_use_cache (Site_heap w1 self) = Some use_cache"
    by (simp_all add: w1 Site_class_def)
  have c1: "suds_client_attr (Source_heap w1 src) = Some client" using client by (simp add: w1)
  have d1: "GetSiteInfoObject E client
           (fmt_colon (network (Site_heap w1 self)) (site_code (Site_heap w1 self))) = Inr info"
    using detail by (simp add: s1)
  have A: "Site_update_site_info E self w1 = (Inr (),
      w1\<lparr>Site_heap := (Site_heap w1)(self := (Site_heap w1 self)\<lparr>priv_site_info := Some info\<rparr>),
        calls := calls w1 @ [Call_GetSiteInfoObject client arg]\<rparr>)"
    using Site_update_site_info_run [OF s1(1) c1 d1] sites catalogs
    by (simp add: s1 arg_def)
  from first A have ra: "res_a = Inr ()"
    and wa: "wa = w1\<lparr>Site_heap := (Site_heap w1)(self := (Site_heap w1 self)\<lparr>priv_site_info := Some info\<rparr>),
        calls := calls w1 @ [Call_GetSiteInfoObject client arg]\<rparr>"
    by (simp_all add: self_def)
  have sa: "priv_site_info (Site_heap wa self) = Some info"
    "priv_timeseries_list (Site_heap wa self) = []" "priv_dataframe (Site_heap wa self) = None"
    "calls wa = calls w @ [Call_GetSiteInfoObject client arg]"
    "site_use_cache (Site_heap wa self) = Some use_cache" "next_ref wa = Suc self"
    "Source_heap wa = Source_heap w" "source (Site_heap wa self) = Some src"
    "network (Site_heap wa self) = net" "site_code (Site_heap wa self) = code"
    by (simp_all add: wa s1 w1 Site_class_def)
  have nc: "cache_enabled E (site_use_cache (Site_heap wa self)) \<longrightarrow>
                    get_cached_timeseries_list E self = []"
    using nocache by (simp add: sa)
  note B = Site_timeseries_list_build [OF sa(2) nc sa(1) sites catalogs,
      unfolded second [unfolded self_def [symmetric]] sa(6) ds_def [symmetric]]
  from B nocache have rb: "res_b = Inr [Suc self ..< Suc self + length ds]"
    and cb: "calls wb = calls wa"
    and hb: "Site_heap wb = (Site_heap wa)(self := (Site_heap wa self)
           \<lparr>priv_timeseries_list := [Suc self ..< Suc self + length ds]\<rparr>)"
    and sb: "Source_heap wb = Source_heap w"
    and ob: "\<forall>i < length ds. TimeSeries_heap wb (Suc self + i) = new_TimeSeries (ds ! i) self"
    by (simp_all add: sa)
  have tb: "priv_timeseries_list (Site_heap wb self) = [Suc self ..< Suc self + length ds]"
    "priv_dataframe (Site_heap wb self) = None" "source (Site_heap wb self) = Some src"
    "arg = fmt_colon (network (Site_heap wb self)) (site_code (Site_heap wb self))"
    by (simp_all add: hb sa arg_def)
  have cl: "suds_client_attr (Source_heap wb src) = Some client" using client by (simp add: sb)
  have okd: "\<forall>d \<in> set ds. series_fetchable E client arg d" using ok by (simp add: ds_def arg_def)
  note C = for_each_dataframe_column [OF third [unfolded self_def [symmetric] tb(1)] ob tb(3) cl tb(4) okd]
  from C have rc: "res_c = Inr (map (column_of E client arg) ds)"
    and cc: "calls wc = calls wb @ map (values_request E client arg) ds"
    by simp_all
  have D: "Site_dataframe E self w1 =
      (Inr (Some (DataFrame (dict_of (map (column_of E client arg) ds)))),
       snd (set_dataframe self (DataFrame (dict_of (map (column_of E client arg) ds))) wc))"
    using A [folded wa] second [unfolded self_def [symmetric]] rb
      third [unfolded self_def [symmetric] tb(1)] rc s1(4) sa(3)
    by (simp add: Site_dataframe_def Site_update_dataframe_def not_dataframe_def set_dataframe_def
        run_defs del: upt_Suc)
  from whole D have r: "res = Inr (Some (DataFrame (dict_of (map (column_of E client arg) ds))))"
    and wd: "wd = snd (set_dataframe self (DataFrame (dict_of (map (column_of E client arg) ds))) wc)"
    by (simp_all add: self_def)
  have cd: "calls wd = calls w @ Call_GetSiteInfoObject client arg # map (values_request E client arg) ds"
    by (simp add: wd set_dataframe_def cc cb sa)
  from ra sa rb tb cb rc cc r wd cd show ?thesis
    unfolding self_def ds_def arg_def by simp
qed

text \<open>The sample Site, whose catalog has one series.\<close>

theorem dataframe_dependency_order_witness:
  "fst (Site_dataframe demo_env 1 demo_site_world)
     = Inr (Some (DataFrame [(Some ''00060'', Some [(''2000-01-01'', 1), (''2000-01-02'', 2)])]))
   \<and> calls (snd (Site_dataframe demo_env 1 demo_site_world))
     = [Call_GetSiteInfoObject (Client ''http://example.org/wml'') ''NWISDV:01234'',
        Call_GetValuesObject (Client ''http://example.org/wml'') ''NWISDV:01234'' ''NWISDV:00060''
          ''2000-01-01'' ''2000-01-01'']"
proof -
  define w where "w = snd (Source_init ''http://example.org/wml'' False empty_world)"
  have w: "next_ref w = 1" "suds_client_attr (Source_heap w 0) = Some (Client ''http://example.org/wml'')"
    "calls w = []"
    by (simp_all add: w_def Source_init_def empty_world_def Source_class_def Let_def)
  have nocache: "\<not> cache_enabled demo_env (Some False)" by (simp add: cache_enabled_def)
  have detail: "GetSiteInfoObject demo_env (Client ''http://example.org/wml'')
      (fmt_colon (Some ''NWISDV'') (Some ''01234'')) = Inr demo_site_info"
    by (simp add: demo_env_def)
  have sites: "response_site demo_site_info = [\<lparr>seriesCatalog = [\<lparr>catalog_series = [demo_series]\<rparr>]\<rparr>]"
    by (simp add: demo_site_info_def)
  have catalogs: "seriesCatalog \<lparr>seriesCatalog = [\<lparr>catalog_series = [demo_series]\<rparr>]\<rparr>
      = [\<lparr>catalog_series = [demo_series]\<rparr>]"
    by simp
  have ok: "\<forall>d \<in> set (catalog_series \<lparr>catalog_series = [demo_series]\<rparr>).
      series_fetchable demo_env (Client ''http://example.org/wml'')
        (fmt_colon (Some ''NWISDV'') (Some ''01234'')) d"
    by (simp add: series_fetchable_def demo_series_def demo_env_def)
  have fresh: "demo_site_world = snd (Site_init (Some ''01234'') (Some ''Demo site'') (Some 1)
      (Some ''NWISDV'') (Some 30) (Some (-97)) (Some 0) False w)"
    by (simp add: demo_site_world_def w_def)
  note T = dataframe_dependency_order [OF nocache w(2) detail sites catalogs ok fresh
      prod.collapse [symmetric] prod.collapse [symmetric] prod.collapse [symmetric]
      prod.collapse [symmetric], unfolded w]
  have col: "column_of demo_env (Client ''http://example.org/wml'') ''NWISDV:01234'' demo_series
      = (Some ''00060'', Some [(''2000-01-01'', 1), (''2000-01-02'', 2)])"
    by (simp add: column_of_def fetched_series_def demo_series_def demo_env_def demo_variable_def
        demo_values_def)
  have req: "values_request demo_env (Client ''http://example.org/wml'') ''NWISDV:01234'' demo_series
      = Call_GetValuesObject (Client ''http://example.org/wml'') ''NWISDV:01234'' ''NWISDV:00060''
          ''2000-01-01'' ''2000-01-01''"
    by (simp add: values_request_def variable_arg_def date_arg_def demo_series_def demo_env_def
        demo_variable_def fmt_colon_def py_str_def)
  from T show ?thesis
    by (simp add: col req dict_of_def fmt_colon_def py_str_def)
qed

subsection \<open>Emptiness as the population sentinel\<close>

text \<open>
  C10 as stated fails for the Site: a Site whose series catalog is empty fetches its
  site-detail payload on the first access of \<^verbatim>\<open>timeseries_list\<close>; the second access
  returns the empty list again and leaves the store, and with it the record of calls,
  exactly as it was. The payload is memoized in \<^verbatim>\<open>_site_info\<close>, so no remote call is
  made again.
\<close>

theorem empty_catalog_not_fetched_again:
  "fst (Site_timeseries_list empty_env 1 demo_site_world) = Inr []
   \<and> calls (snd (Site_timeseries_list empty_env 1 demo_site_world))
       = [Call_GetSiteInfoObject (Client ''http://example.org/wml'') ''NWISDV:01234'']
   \<and> Site_timeseries_list empty_env 1 (snd (Site_timeseries_list empty_env 1 demo_site_world))
       = (Inr [], snd (Site_timeseries_list empty_env 1 demo_site_world))"
proof -
  have w: "demo_site_world =
     \<lparr>Source_heap = (\<lambda>r. Source_class)(0 := Source_class\<lparr>url := Some ''http://example.org/wml'',
          suds_client_attr := Some (Client ''http://example.org/wml''),
          source_use_cache := Some False\<rparr>),
      Site_heap = (\<lambda>r. Site_class)(1 := Site_class\<lparr>site_code := Some ''01234'',
          site_name := Some ''Demo site'', site_id := Some 1, network := Some ''NWISDV'',
          location := Some (Point (Some (-97)) (Some 30)), source := Some 0,
          site_use_cache := Some False\<rparr>),
      TimeSeries_heap = (\<lambda>r. TimeSeries_class),
      next_ref = 2, calls = []\<rparr>"
    by (simp add: demo_site_world_def Site_init_def Source_init_def empty_world_def Let_def
        numeral_2_eq_2)
  have first: "Site_timeseries_list empty_env 1 demo_site_world =
      (Inr [], demo_site_world\<lparr>Site_heap := (Site_heap demo_site_world)
           (1 := (Site_heap demo_site_world 1)\<lparr>priv_site_info := Some empty_catalog_info\<rparr>),
         calls := [Call_GetSiteInfoObject (Client ''http://example.org/wml'') ''NWISDV:01234'']\<rparr>)"
    by (simp add: w Site_timeseries_list_def Site_update_timeseries_list_def Site_site_info_def
        Site_update_site_info_def set_site_info_def set_timeseries_list_def item0_def run_defs
        cache_enabled_def Site_class_def Source_class_def empty_env_def demo_env_def
        empty_catalog_info_def fmt_colon_def py_str_def)
  show ?thesis
    unfolding first
    by (simp add: w Site_timeseries_list_def Site_update_timeseries_list_def Site_site_info_def
        set_timeseries_list_def item0_def run_defs
        cache_enabled_def Site_class_def Source_class_def empty_env_def demo_env_def
        empty_catalog_info_def)
qed

text \<open>
  C10, amended. A Source whose \<^verbatim>\<open>GetSites\<close> answer has no sites and a TimeSeries whose
  get-values answer has no values make the same remote call on every access, however
  often they are accessed: the empty result is never memoized. A Site whose series
  catalog is empty and whose payload is in \<^verbatim>\<open>_site_info\<close> rebuilds the empty list on
  every access of \<^verbatim>\<open>timeseries_list\<close> and makes no remote call; with caching enabled
  it queries and writes the Cache Store each time.
\<close>

theorem emptiness_sentinel:
  assumes "priv_sites (Source_heap w src) = []"
    and "cache_enabled E (source_use_cache (Source_heap w src)) \<longrightarrow> get_cached_sites E src = []"
    and "suds_client_attr (Source_heap w src) = Some client"
    and "GetSites E client [] = Inr []"
    and "len_series (priv_series (TimeSeries_heap w ts)) = 0"
    and "ts_site (TimeSeries_heap w ts) = Some site"
    and "source (Site_heap w site) = Some src2"
    and "suds_client_attr (Source_heap w src2) = Some client2"
    and "ts_variable (TimeSeries_heap w ts) = Some var"
    and "begin_datetime (TimeSeries_heap w ts) = Some b"
    and "end_datetime (TimeSeries_heap w ts) = Some e"
    and "GetValuesObject E client2
           (fmt_colon (network (Site_heap w site)) (site_code (Site_heap w site)))
           (fmt_colon (vocabulary var) (variable_code var))
           (strftime E b ''%Y-%m-%d'') (strftime E e ''%Y-%m-%d'') = Inr resp"
    and "response_values resp = []"
    and "priv_timeseries_list (Site_heap w st) = []"
    and "cache_enabled E (site_use_cache (Site_heap w st)) \<longrightarrow>
           get_cached_timeseries_list E st = []"
    and "priv_site_info (Site_heap w st) = Some info"
    and "response_site info = site0 # more_sites"
    and "seriesCatalog site0 = catalog0 # more_catalogs"
    and "catalog_series catalog0 = []"
  shows "calls (((\<lambda>w. snd (Source_sites E src w)) ^^ n) w) =
        calls w @ concat (replicate n
          ((if cache_enabled E (source_use_cache (Source_heap w src))
            then [Call_get_cached_sites src] else [])
           @ [Call_GetSites client []]
           @ (if cache_enabled E (source_use_cache (Source_heap w src))
              then [Call_update_cache_sites [] src] else [])))
    \<and> fst (Source_sites E src (((\<lambda>w. snd (Source_sites E src w)) ^^ n) w)) = Inr []
    \<and> calls (((\<lambda>w. snd (TimeSeries_series E ts w)) ^^ n) w) =
        calls w @ concat (replicate n [Call_GetValuesObject client2
            (fmt_colon (network (Site_heap w site)) (site_code (Site_heap w site)))
            (fmt_colon (vocabulary var) (variable_code var))
            (strftime E b ''%Y-%m-%d'') (strftime E e ''%Y-%m-%d'')])
    \<and> fst (TimeSeries_series E ts (((\<lambda>w. snd (TimeSeries_series E ts w)) ^^ n) w)) = Inr (Some [])
    \<and> calls (((\<lambda>w. snd (Site_timeseries_list E st w)) ^^ n) w) =
        calls w @ concat (replicate n
          (if cache_enabled E (site_use_cache (Site_heap w st))
           then [Call_get_cached_timeseries_list st, Call_update_cache_timeseries st] else []))
    \<and> fst (Site_timeseries_list E st (((\<lambda>w. snd (Site_timeseries_list E st w)) ^^ n) w)) = Inr []"
proof -
  note A = Source_sites_empty_again [OF assms(1) assms(2) refl assms(3) assms(4), of n]
  note B = TimeSeries_series_empty_again [OF assms(5-13), of n]
  note C = Site_timeseries_list_empty_again [OF assms(14) assms(15) refl assms(16-19), of n]
  from A B C show ?thesis by simp
qed

text \<open>Two accesses of each accessor in the sample store, against the empty service.\<close>

theorem emptiness_sentinel_witness:
  "calls (((\<lambda>w. snd (Source_sites empty_env 0 w)) ^^ 2) empty_catalog_world) =
     [Call_GetSiteInfoObject (Client ''http://example.org/wml'') ''NWISDV:01234'',
      Call_GetSites (Client ''http://example.org/wml'') [],
      Call_GetSites (Client ''http://example.org/wml'') []]
   \<and> calls (((\<lambda>w. snd (TimeSeries_series empty_env 2 w)) ^^ 2) empty_catalog_world) =
     [Call_GetSiteInfoObject (Client ''http://example.org/wml'') ''NWISDV:01234'',
      Call_GetValuesObject (Client ''http://example.org/wml'') ''NWISDV:01234'' ''NWISDV:00060''
        ''2000-01-01'' ''2000-01-01'',
      Call_GetValuesObject (Client ''http://example.org/wml'') ''NWISDV:01234'' ''NWISDV:00060''
        ''2000-01-01'' ''2000-01-01'']
   \<and> calls (((\<lambda>w. snd (Site_timeseries_list empty_env 1 w)) ^^ 2) empty_catalog_world) =
     [Call_GetSiteInfoObject (Client ''http://example.org/wml'') ''NWISDV:01234'']"
proof -
  note w = empty_catalog_world_eq
  have a: "priv_sites (Source_heap empty_catalog_world 0) = []"
    "cache_enabled empty_env (source_use_cache (Source_heap empty_catalog_world 0)) \<longrightarrow>
       get_cached_sites empty_env 0 = []"
    "suds_client_attr (Source_heap empty_catalog_world 0) = Some (Client ''http://example.org/wml'')"
    "GetSites empty_env (Client ''http://example.org/wml'') [] = Inr []"
    by (simp_all add: w Source_class_def empty_env_def demo_env_def)
  have b: "len_series (priv_series (TimeSeries_heap empty_catalog_world 2)) = 0"
    "ts_site (TimeSeries_heap empty_catalog_world 2) = Some 1"
    "source (Site_heap empty_catalog_world 1) = Some 0"
    "ts_variable (TimeSeries_heap empty_catalog_world 2) = Some demo_variable"
    "begin_datetime (TimeSeries_heap empty_catalog_world 2) = Some (Datetime 2000 1 1)"
    "end_datetime (TimeSeries_heap empty_catalog_world 2) = Some (Datetime 2000 1 2)"
    "GetValuesObject empty_env (Client ''http://example.org/wml'')
       (fmt_colon (network (Site_heap empty_catalog_world 1)) (site_code (Site_heap empty_catalog_world 1)))
       (fmt_colon (vocabulary demo_variable) (variable_code demo_variable))
       (strftime empty_env (Datetime 2000 1 1) ''%Y-%m-%d'')
       (strftime empty_env (Datetime 2000 1 2) ''%Y-%m-%d'')
       = Inr \<lparr>response_values = [], response_quantity = ''cfs''\<rparr>"
    "response_values \<lparr>response_values = [], response_quantity = ''cfs''\<rparr> = []"
    by (simp_all add: w TimeSeries_class_def Site_class_def len_series_def empty_env_def)
  have c: "priv_timeseries_list (Site_heap empty_catalog_world 1) = []"
    "cache_enabled empty_env (site_use_cache (Site_heap empty_catalog_world 1)) \<longrightarrow>
           get_cached_timeseries_list empty_env 1 = []"
    "priv_site_info (Site_heap empty_catalog_world 1) = Some empty_catalog_info"
    "response_site empty_catalog_info = \<lparr>seriesCatalog = [\<lparr>catalog_series = []\<rparr>]\<rparr> # []"
    "seriesCatalog \<lparr>seriesCatalog = [\<lparr>catalog_series = []\<rparr>]\<rparr> = \<lparr>catalog_series = []\<rparr> # []"
    "catalog_series \<lparr>catalog_series = []\<rparr> = []"
    by (simp_all add: w Site_class_def empty_env_def demo_env_def empty_catalog_info_def)
  note T = emptiness_sentinel [OF a b(1,2,3) a(3) b(4-8) c, of 2]
  have n: "site_use_cache (Site_heap empty_catalog_world 1) = Some False"
    "source_use_cache (Source_heap empty_catalog_world 0) = Some False"
    "network (Site_heap empty_catalog_world 1) = Some ''NWISDV''"
    "site_code (Site_heap empty_catalog_world 1) = Some ''01234''"
    "calls empty_catalog_world
       = [Call_GetSiteInfoObject (Client ''http://example.org/wml'') ''NWISDV:01234'']"
    by (simp_all add: w)
  from T show ?thesis
    unfolding n
    by (simp add: cache_enabled_def numeral_2_eq_2 fmt_colon_def py_str_def demo_variable_def
        empty_env_def demo_env_def del: funpow.simps)
qed

end
